theory Spec2Isabelle
  imports Main
begin

section \<open>The news-summary browser component: data model\<close>

text \<open>
  The component \<^verbatim>\<open>NewsSummaryBrowser\<close> of
  \<^verbatim>\<open>src/components/news-summary-browser.mjs\<close> keeps an index into a list of
  commits and delegates every version-control and file operation to an external
  library (isomorphic-git and LightningFS). The embedding below follows the source
  method by method:
  \<^item> the fields of the element are a record; the element references found by
    \<^verbatim>\<open>connectedCallback\<close> are fields too, optional where the source guards them;
  \<^item> the external library is a record of functions over an abstract world \<open>'w\<close>
    (network, file system): each call returns a result or an error together with the
    new world, so that every theorem holds for every behaviour of the library;
  \<^item> an exception is a value: an external call yields \<open>Inl e\<close>, a method returns a
    \<open>completion\<close>;
  \<^item> every call into the library is appended, with its arguments and its result, to
    the field \<open>calls\<close>, a history that the source does not have and that only records
    what was called.

  Each asynchronous method is modelled as running to completion before the next one
  starts (an \<^verbatim>\<open>await\<close> is a sequential step); every external call is taken to return
  or to throw. Numbers are integers; a sum is rounded as JavaScript rounds it once it
  leaves the range of the exact integers. \<^verbatim>\<open>fetchStep\<close>, which enters the one sum of the
  source, holds whatever the constructor or \<^verbatim>\<open>attributeChangedCallback\<close> stored: a number,
  a string or null. \<^verbatim>\<open>fetchThreshold\<close> and \<^verbatim>\<open>initialDepth\<close> are numbers, as the
  constructor leaves them. The style sheet and the shadow root that the constructor sets
  up are outside the model.
\<close>

datatype error = LibError string | TypeError string

type_synonym 'a result = "error + 'a"

datatype completion = Normal | Thrown error

text \<open>
  Text that comes from outside (a commit message) is a JavaScript string: the list of its
  UTF-16 code units. \<open>units\<close> gives the code units of an ASCII literal of the source.
\<close>

type_synonym js_string = "nat list"

definition units :: "string \<Rightarrow> js_string" where
  "units s = map of_char s"

text \<open>A commit as \<^verbatim>\<open>git.log\<close> returns it: \<^verbatim>\<open>oid\<close> and \<^verbatim>\<open>commit.message\<close>.\<close>

datatype commit = Commit (oid: string) (message: js_string)

text \<open>
  The values that \<^verbatim>\<open>fetchStep\<close> can hold, and with it the depth that is computed from
  it: a number, a string (an attribute value that \<^verbatim>\<open>parseInt\<close> reads as NaN or 0) or
  null (the attribute was removed).
\<close>

datatype js_value = Num int | Str string | Null

datatype fs_handle = LightningFS string

datatype pfs_handle = Promises fs_handle

datatype http_client = Http_web

text \<open>
  The argument objects of the library calls. A property that a call site leaves out is
  \<open>None\<close> (\<^verbatim>\<open>shallow\<close>, \<^verbatim>\<open>force\<close>); \<^verbatim>\<open>fs\<close> and \<^verbatim>\<open>dir\<close> are read from
  \<^verbatim>\<open>globalThis\<close> by two of the methods and are \<open>None\<close> when undefined there.
\<close>

record net_args =
  na_fs :: "fs_handle option"
  na_http :: http_client
  na_dir :: "string option"
  na_url :: string
  na_ref :: string
  na_singleBranch :: bool
  na_depth :: js_value
  na_shallow :: "bool option"
  na_corsProxy :: string

record log_args =
  la_fs :: "fs_handle option"
  la_dir :: "string option"
  la_ref :: string
  la_depth :: js_value

record checkout_args =
  co_fs :: "fs_handle option"
  co_dir :: "string option"
  co_ref :: string
  co_force :: "bool option"

text \<open>
  The history of calls. \<open>Enter_prefetchMore\<close> marks an entry into the method
  \<^verbatim>\<open>prefetchMore\<close>; every other event is one call into the library with its result.
\<close>

datatype call =
    Enter_prefetchMore
  | Git_clone net_args "unit result"
  | Git_fetch net_args "unit result"
  | Git_log log_args "commit list result"
  | Git_checkout checkout_args "unit result"
  | Pfs_mkdir pfs_handle string "unit result"
  | Pfs_readFile pfs_handle string string "string result"

text \<open>
  A DOM node of the document that the browser parses from \<^verbatim>\<open>index.html\<close>: an element
  with its tag, attributes and children, or any other node (text, comment).
\<close>

datatype node = Element string "(string \<times> string) list" "node list" | Text string

text \<open>
  The external world: the git library, the promise file system and the browser's HTML
  parser (\<^verbatim>\<open>documentElement.innerHTML = file\<close> followed by \<^verbatim>\<open>doc.body\<close>) and serialiser
  (\<^verbatim>\<open>body.innerHTML\<close>).
\<close>

record 'w env =
  git_clone :: "net_args \<Rightarrow> 'w \<Rightarrow> unit result \<times> 'w"
  git_fetch :: "net_args \<Rightarrow> 'w \<Rightarrow> unit result \<times> 'w"
  git_log :: "log_args \<Rightarrow> 'w \<Rightarrow> commit list result \<times> 'w"
  git_checkout :: "checkout_args \<Rightarrow> 'w \<Rightarrow> unit result \<times> 'w"
  pfs_mkdir :: "pfs_handle \<Rightarrow> string \<Rightarrow> 'w \<Rightarrow> unit result \<times> 'w"
  pfs_readFile :: "pfs_handle \<Rightarrow> string \<Rightarrow> string \<Rightarrow> 'w \<Rightarrow> string result \<times> 'w"
  parse_body :: "string \<Rightarrow> node list"
  inner_html :: "node list \<Rightarrow> string"

record button =
  disabled :: bool
  textContent :: string

text \<open>
  The element. \<open>status\<close>, \<open>commitInfo\<close>, \<open>backBtn\<close> and \<open>nextBtn\<close> are \<open>None\<close> when
  the template has no such element; \<open>status\<close> and \<open>commitInfo\<close> hold the text content,
  \<open>content\<close> the \<^verbatim>\<open>innerHTML\<close> of \<^verbatim>\<open>#content\<close> (which \<^verbatim>\<open>connectedCallback\<close> requires
  before it wires anything). \<open>content_box\<close> says whether
  \<^verbatim>\<open>this.shadowRoot.querySelector(".news-browser__content")\<close> finds an element, and
  \<open>animation\<close> is that element's \<^verbatim>\<open>style.animation\<close>. \<open>global_fs\<close>, \<open>global_pfs\<close> and
  \<open>global_dir\<close> are the properties of \<^verbatim>\<open>globalThis\<close>.
\<close>

record 'w component =
  currentIndex :: int
  fetchFailed :: bool
  isFetching :: bool
  loadingMore :: bool
  log :: "commit list"
  branch :: string
  fetchStep :: js_value
  fetchThreshold :: int
  initialDepth :: int
  repoUrl :: string
  status :: "string option"
  commitInfo :: "js_string option"
  content :: string
  backBtn :: "button option"
  nextBtn :: "button option"
  content_box :: bool
  animation :: string
  global_fs :: "fs_handle option"
  global_pfs :: "pfs_handle option"
  global_dir :: "string option"
  world :: 'w
  calls :: "call list"

section \<open>Strings\<close>

text \<open>
  A number inside a template literal: its decimal digits, with a sign when negative
  (what JavaScript prints for an integer below \<open>10\<^sup>2\<^sup>1\<close> in magnitude).
\<close>

function decimal :: "nat \<Rightarrow> string" where
  "decimal n =
     (if n < 10 then [''0123456789'' ! n]
      else decimal (n div 10) @ [''0123456789'' ! (n mod 10)])"
  by pat_completeness auto
termination
  by (relation "measure id") auto

declare decimal.simps [simp del]

definition number_text :: "int \<Rightarrow> string" where
  "number_text i = (if 0 \<le> i then decimal (nat i) else CHR ''-'' # decimal (nat (- i)))"

text \<open>
  An integer as a JavaScript number holds it: below \<open>2\<^sup>5\<^sup>3\<close> in magnitude every integer
  is a number; above, a number keeps 53 significant bits, and a sum is rounded to the
  nearest such number, to the even one of two nearest.
\<close>

function bit_count :: "int \<Rightarrow> nat" where
  "bit_count n = (if n \<le> 0 then 0 else Suc (bit_count (n div 2)))"
  by pat_completeness auto
termination
  by (relation "measure nat") auto

declare bit_count.simps [simp del]

definition round_double :: "int \<Rightarrow> int" where
  "round_double x =
     (if \<bar>x\<bar> \<le> 2 ^ 53 then x
      else
        let shift = bit_count \<bar>x\<bar> - 53;
            q = \<bar>x\<bar> div 2 ^ shift;
            r = \<bar>x\<bar> mod 2 ^ shift;
            half = 2 ^ (shift - 1);
            q' = (if half < r \<or> (r = half \<and> odd q) then q + 1 else q)
        in sgn x * q' * 2 ^ shift)"

text \<open>
  \<^verbatim>\<open>n + v\<close> for a number \<open>n\<close>: a sum of numbers, the concatenation of the digits of
  \<open>n\<close> and a string, and \<open>n\<close> itself for null (which counts as 0).
\<close>

definition js_plus :: "int \<Rightarrow> js_value \<Rightarrow> js_value" where
  "js_plus n v =
     (case v of
        Num m \<Rightarrow> Num (round_double (n + m))
      | Str t \<Rightarrow> Str (number_text n @ t)
      | Null \<Rightarrow> Num n)"

text \<open>A value inside a template literal.\<close>

definition js_text :: "js_value \<Rightarrow> string" where
  "js_text v = (case v of Num n \<Rightarrow> number_text n | Str t \<Rightarrow> t | Null \<Rightarrow> ''null'')"

text \<open>
  \<^verbatim>\<open>message.trim().split("\n")[0]\<close>: the first line of the trimmed message. \<^verbatim>\<open>trim\<close>
  removes the white space and the line terminators of JavaScript from both ends: tab, line
  feed, vertical tab, form feed, carriage return, space, no-break space, the space
  separators U+1680, U+2000 to U+200A, U+202F, U+205F and U+3000, the line and paragraph
  separators U+2028 and U+2029, and the byte order mark U+FEFF.
\<close>

definition is_space :: "nat \<Rightarrow> bool" where
  "is_space u =
     (u \<in> set [0x09, 0x0A, 0x0B, 0x0C, 0x0D, 0x20, 0xA0, 0x1680,
                0x2000, 0x2001, 0x2002, 0x2003, 0x2004, 0x2005, 0x2006, 0x2007, 0x2008,
                0x2009, 0x200A, 0x2028, 0x2029, 0x202F, 0x205F, 0x3000, 0xFEFF])"

definition trim :: "js_string \<Rightarrow> js_string" where
  "trim s = rev (dropWhile is_space (rev (dropWhile is_space s)))"

definition first_line :: "js_string \<Rightarrow> js_string" where
  "first_line s = takeWhile (\<lambda>u. u \<noteq> 0x0A) s"

section \<open>The exported functions\<close>

text \<open>One call into the library: the world moves on and the call is recorded.\<close>

definition call_clone :: "'w env \<Rightarrow> net_args \<Rightarrow> 'w component \<Rightarrow> unit result \<times> 'w component" where
  "call_clone E a s =
     (case git_clone E a (world s) of
        (r, w) \<Rightarrow> (r, s\<lparr>world := w, calls := calls s @ [Git_clone a r]\<rparr>))"

definition call_fetch :: "'w env \<Rightarrow> net_args \<Rightarrow> 'w component \<Rightarrow> unit result \<times> 'w component" where
  "call_fetch E a s =
     (case git_fetch E a (world s) of
        (r, w) \<Rightarrow> (r, s\<lparr>world := w, calls := calls s @ [Git_fetch a r]\<rparr>))"

definition call_log :: "'w env \<Rightarrow> log_args \<Rightarrow> 'w component \<Rightarrow> commit list result \<times> 'w component" where
  "call_log E a s =
     (case git_log E a (world s) of
        (r, w) \<Rightarrow> (r, s\<lparr>world := w, calls := calls s @ [Git_log a r]\<rparr>))"

definition call_checkout :: "'w env \<Rightarrow> checkout_args \<Rightarrow> 'w component \<Rightarrow> unit result \<times> 'w component" where
  "call_checkout E a s =
     (case git_checkout E a (world s) of
        (r, w) \<Rightarrow> (r, s\<lparr>world := w, calls := calls s @ [Git_checkout a r]\<rparr>))"

definition call_mkdir :: "'w env \<Rightarrow> pfs_handle \<Rightarrow> string \<Rightarrow> 'w component \<Rightarrow> unit result \<times> 'w component" where
  "call_mkdir E p path s =
     (case pfs_mkdir E p path (world s) of
        (r, w) \<Rightarrow> (r, s\<lparr>world := w, calls := calls s @ [Pfs_mkdir p path r]\<rparr>))"

definition call_readFile ::
  "'w env \<Rightarrow> pfs_handle \<Rightarrow> string \<Rightarrow> string \<Rightarrow> 'w component \<Rightarrow> string result \<times> 'w component" where
  "call_readFile E p path enc s =
     (case pfs_readFile E p path enc (world s) of
        (r, w) \<Rightarrow> (r, s\<lparr>world := w, calls := calls s @ [Pfs_readFile p path enc r]\<rparr>))"

text \<open>
  The arguments that \<^verbatim>\<open>cloneOrFetchRepo\<close> builds from its parameters, the same object
  for \<^verbatim>\<open>git.clone\<close> and for the fallback \<^verbatim>\<open>git.fetch\<close>.
\<close>

definition clone_args ::
  "fs_handle option \<Rightarrow> http_client \<Rightarrow> string option \<Rightarrow> string \<Rightarrow> string \<Rightarrow> js_value \<Rightarrow>
     net_args" where
  "clone_args fs http dir url branch' depth =
     \<lparr>na_fs = fs, na_http = http, na_dir = dir, na_url = url, na_ref = branch',
      na_singleBranch = True, na_depth = depth, na_shallow = None,
      na_corsProxy = ''https://cors.isomorphic-git.org''\<rparr>"

definition cloneOrFetchRepo ::
  "'w env \<Rightarrow> fs_handle option \<Rightarrow> http_client \<Rightarrow> string option \<Rightarrow> string \<Rightarrow> string \<Rightarrow>
     js_value \<Rightarrow> 'w component \<Rightarrow> completion \<times> 'w component" where
  "cloneOrFetchRepo E fs http dir url branch' depth s =
     (case call_clone E (clone_args fs http dir url branch' depth) s of
        (Inr _, s1) \<Rightarrow> (Normal, s1)
      | (Inl _, s1) \<Rightarrow>
          (case call_fetch E (clone_args fs http dir url branch' depth) s1 of
             (Inr _, s2) \<Rightarrow> (Normal, s2)
           | (Inl e, s2) \<Rightarrow> (Thrown e, s2)))"

definition getCommits ::
  "'w env \<Rightarrow> fs_handle option \<Rightarrow> string option \<Rightarrow> string \<Rightarrow> js_value \<Rightarrow> 'w component \<Rightarrow>
     commit list result \<times> 'w component" where
  "getCommits E fs dir branch' depth s =
     call_log E \<lparr>la_fs = fs, la_dir = dir, la_ref = branch', la_depth = depth\<rparr> s"

definition checkoutCommit ::
  "'w env \<Rightarrow> fs_handle option \<Rightarrow> string option \<Rightarrow> string \<Rightarrow> 'w component \<Rightarrow>
     unit result \<times> 'w component" where
  "checkoutCommit E fs dir oid' s =
     call_checkout E \<lparr>co_fs = fs, co_dir = dir, co_ref = oid', co_force = Some True\<rparr> s"

text \<open>
  \<^verbatim>\<open>readIndexFile\<close>: the path is the template literal \<^verbatim>\<open>`${dir}/index.html`\<close>; calling
  \<^verbatim>\<open>readFile\<close> on an undefined \<^verbatim>\<open>pfs\<close> is a TypeError.
\<close>

definition template_dir :: "string option \<Rightarrow> string" where
  "template_dir dir = (case dir of None \<Rightarrow> ''undefined'' | Some d \<Rightarrow> d)"

definition readIndexFile ::
  "'w env \<Rightarrow> pfs_handle option \<Rightarrow> string option \<Rightarrow> 'w component \<Rightarrow> string result \<times> 'w component" where
  "readIndexFile E pfs dir s =
     (case pfs of
        None \<Rightarrow> (Inl (TypeError ''pfs is undefined''), s)
      | Some p \<Rightarrow> call_readFile E p (template_dir dir @ ''/index.html'') ''utf8'' s)"

section \<open>The component\<close>

text \<open>
  The constructor (lines 105 to 117). \<^verbatim>\<open>getAttribute\<close> gives a string or null, and
  \<^verbatim>\<open>parseInt\<close> of it an integer or NaN (\<open>None\<close>); \<^verbatim>\<open>||\<close> takes the default when its
  left operand is null, the empty string, NaN or 0.
\<close>

record attrs =
  attr_branch :: "string option"
  attr_fetch_step :: "int option"
  attr_fetch_threshold :: "int option"
  attr_initial_depth :: "int option"
  attr_repo_url :: "string option"

definition or_number :: "int option \<Rightarrow> int \<Rightarrow> int" where
  "or_number p d = (case p of None \<Rightarrow> d | Some n \<Rightarrow> if n = 0 then d else n)"

definition or_string :: "string option \<Rightarrow> string \<Rightarrow> string" where
  "or_string p d = (case p of None \<Rightarrow> d | Some v \<Rightarrow> if v = [] then d else v)"

definition constructor :: "attrs \<Rightarrow> 'w component \<Rightarrow> 'w component" where
  "constructor a s =
     s\<lparr>currentIndex := 0, fetchFailed := False, isFetching := False, loadingMore := False,
       log := [],
       branch := or_string (attr_branch a) ''main'',
       fetchStep := Num (or_number (attr_fetch_step a) 10),
       fetchThreshold := or_number (attr_fetch_threshold a) 2,
       initialDepth := or_number (attr_initial_depth a) 10,
       repoUrl := or_string (attr_repo_url a) ''https://github.com/kherrick/news-summary''\<rparr>"

text \<open>
  \<^verbatim>\<open>attributeChangedCallback\<close> (lines 161 to 169) for the attribute \<^verbatim>\<open>fetch-step\<close>: the
  old and the new value of the attribute (null when it is absent) and \<^verbatim>\<open>parseInt\<close> of the
  new value. \<^verbatim>\<open>parseInt(newValue) || newValue\<close> is the number when it is neither NaN nor 0
  and the new value itself otherwise. For the other observed attributes the method stores
  into \<^verbatim>\<open>branch\<close>, \<^verbatim>\<open>repoUrl\<close>, \<^verbatim>\<open>initialDepth\<close> and \<^verbatim>\<open>fetchThreshold\<close> in the same
  way; the model keeps those four as the constructor types them. A value of more than
  308 digits, which \<^verbatim>\<open>parseInt\<close> reads as Infinity, is outside the model.
\<close>

definition attribute_value :: "string option \<Rightarrow> js_value" where
  "attribute_value v = (case v of None \<Rightarrow> Null | Some t \<Rightarrow> Str t)"

definition attributeChangedCallback_fetchStep ::
  "string option \<Rightarrow> string option \<Rightarrow> int option \<Rightarrow> 'w component \<Rightarrow> 'w component" where
  "attributeChangedCallback_fetchStep oldValue newValue parsed s =
     (if oldValue = newValue then s
      else s\<lparr>fetchStep :=
               (case parsed of
                  None \<Rightarrow> attribute_value newValue
                | Some n \<Rightarrow> if n = 0 then attribute_value newValue else Num n)\<rparr>)"

definition updateStatus :: "string \<Rightarrow> 'w component \<Rightarrow> 'w component" where
  "updateStatus msg s = (case status s of None \<Rightarrow> s | Some _ \<Rightarrow> s\<lparr>status := Some msg\<rparr>)"

text \<open>\<^verbatim>\<open>this.log[i]\<close>: undefined (\<open>None\<close>) outside the array.\<close>

definition log_at :: "'w component \<Rightarrow> int \<Rightarrow> commit option" where
  "log_at s i = (if 0 \<le> i \<and> i < int (length (log s)) then Some (log s ! nat i) else None)"

definition commit_line :: "'w component \<Rightarrow> commit \<Rightarrow> js_string" where
  "commit_line s c =
     units (''Commit '' @ number_text (currentIndex s + 1) @ ''/'' @
            number_text (int (length (log s))) @ '': '') @
     first_line (trim (message c))"

text \<open>
  The arrow U+2B05 that starts both texts of the back button, as the three bytes that
  encode it in the source file.
\<close>

definition left_arrow :: string where
  "left_arrow = [CHR 0xE2, CHR 0xAC, CHR 0x85]"

text \<open>
  \<^verbatim>\<open>updateUI\<close>. The assignment to \<^verbatim>\<open>this.commitInfo.textContent\<close> is not guarded in the
  source: without a \<^verbatim>\<open>#commitInfo\<close> element it is a TypeError.
\<close>

definition updateUI :: "'w component \<Rightarrow> completion \<times> 'w component" where
  "updateUI s =
     (case (case log_at s (currentIndex s) of
              None \<Rightarrow> Inr s
            | Some c \<Rightarrow>
                (case commitInfo s of
                   None \<Rightarrow> Inl (TypeError ''this.commitInfo is null'')
                 | Some _ \<Rightarrow> Inr (s\<lparr>commitInfo := Some (commit_line s c)\<rparr>))) of
        Inl e \<Rightarrow> (Thrown e, s)
      | Inr s1 \<Rightarrow>
          (case (backBtn s1, nextBtn s1) of
             (Some b, Some n) \<Rightarrow>
               (Normal,
                s1\<lparr>backBtn := Some
                      \<lparr>disabled =
                         (currentIndex s1 \<ge> int (length (log s1)) - 1 \<and>
                          (fetchFailed s1 \<or> \<not> loadingMore s1)),
                       textContent =
                         (if loadingMore s1 then left_arrow @ '' Loading older...''
                          else left_arrow @ '' Back (Older)'')\<rparr>,
                    nextBtn := Some (n\<lparr>disabled := (currentIndex s1 \<le> 0)\<rparr>)\<rparr>)
           | _ \<Rightarrow> (Normal, s1)))"

text \<open>
  \<^verbatim>\<open>targetDepth\<close> (line 182), and the arguments of the \<^verbatim>\<open>git.fetch\<close> and of the
  \<^verbatim>\<open>git.log\<close> in \<^verbatim>\<open>prefetchMore\<close> for a depth.
\<close>

definition targetDepth :: "'w component \<Rightarrow> js_value" where
  "targetDepth s = js_plus (int (length (log s))) (fetchStep s)"

definition prefetch_fetch_args :: "'w component \<Rightarrow> js_value \<Rightarrow> net_args" where
  "prefetch_fetch_args s depth =
     \<lparr>na_fs = global_fs s, na_http = Http_web, na_dir = global_dir s, na_url = repoUrl s,
      na_ref = branch s, na_singleBranch = True, na_depth = depth,
      na_shallow = Some True, na_corsProxy = ''https://cors.isomorphic-git.org''\<rparr>"

definition prefetch_log_args :: "'w component \<Rightarrow> js_value \<Rightarrow> log_args" where
  "prefetch_log_args s depth =
     \<lparr>la_fs = global_fs s, la_dir = global_dir s, la_ref = branch s, la_depth = depth\<rparr>"

text \<open>The \<^verbatim>\<open>finally\<close> block of \<^verbatim>\<open>prefetchMore\<close>.\<close>

definition prefetch_finally :: "'w component \<Rightarrow> completion \<times> 'w component" where
  "prefetch_finally s =
     (let s1 = s\<lparr>isFetching := False, loadingMore := False\<rparr> in
      updateUI (updateStatus (if fetchFailed s1 then ''Reached oldest commit'' else []) s1))"

definition prefetchMore :: "'w env \<Rightarrow> 'w component \<Rightarrow> completion \<times> 'w component" where
  "prefetchMore E s0 =
     (let s = s0\<lparr>calls := calls s0 @ [Enter_prefetchMore]\<rparr> in
      if isFetching s \<or> fetchFailed s \<or> loadingMore s then (Normal, s)
      else
        let s1 = s\<lparr>isFetching := True, loadingMore := True\<rparr>;
            depth = targetDepth s1;
            s2 = updateStatus
                   (''Fetching '' @ js_text (fetchStep s1) @ '' more commits... ('' @
                    js_text depth @ '' total)'') s1
        in
          (case call_fetch E (prefetch_fetch_args s2 depth) s2 of
             (Inl _, s3) \<Rightarrow> prefetch_finally (s3\<lparr>fetchFailed := True\<rparr>)
           | (Inr _, s3) \<Rightarrow>
               (case call_log E (prefetch_log_args s3 depth) s3 of
                  (Inl _, s4) \<Rightarrow> prefetch_finally (s4\<lparr>fetchFailed := True\<rparr>)
                | (Inr l, s4) \<Rightarrow> prefetch_finally (s4\<lparr>log := l, fetchFailed := False\<rparr>))))"

text \<open>
  Lines 322 to 327 of \<^verbatim>\<open>displayCommit\<close>: \<^verbatim>\<open>querySelector("hr")\<close> finds the first
  \<^verbatim>\<open>hr\<close> element in document order, and the loop removes every later sibling of it.
  \<open>cut_after_hr\<close> is \<open>None\<close> when the nodes hold no \<^verbatim>\<open>hr\<close>.
\<close>

fun cut_after_hr :: "node list \<Rightarrow> node list option" where
  "cut_after_hr [] = None"
| "cut_after_hr (Text t # ns) = map_option ((#) (Text t)) (cut_after_hr ns)"
| "cut_after_hr (Element tag as cs # ns) =
     (if tag = ''hr'' then Some [Element tag as cs]
      else (case cut_after_hr cs of
              Some cs' \<Rightarrow> Some (Element tag as cs' # ns)
            | None \<Rightarrow> map_option ((#) (Element tag as cs)) (cut_after_hr ns)))"

definition remove_after_hr :: "node list \<Rightarrow> node list" where
  "remove_after_hr body = (case cut_after_hr body of None \<Rightarrow> body | Some body' \<Rightarrow> body')"



definition no_index_markup :: string where
  "no_index_markup = ''<em>No index.html found in commit</em>''"

definition displayCommit :: "'w env \<Rightarrow> int \<Rightarrow> 'w component \<Rightarrow> completion \<times> 'w component" where
  "displayCommit E index s =
     (if index < 0 \<or> index \<ge> int (length (log s)) then (Normal, s)
      else
        let commit = log s ! nat index;
            s1 = s\<lparr>currentIndex := index\<rparr>
        in
          (case checkoutCommit E (global_fs s1) (global_dir s1) (oid commit) s1 of
             (Inl e, s2) \<Rightarrow> (Thrown e, s2)
           | (Inr _, s2) \<Rightarrow>
               (case readIndexFile E (global_pfs s2) (global_dir s2) s2 of
                  (Inl _, s3) \<Rightarrow> updateUI (s3\<lparr>content := no_index_markup\<rparr>)
                | (Inr file, s3) \<Rightarrow>
                    updateUI
                      (s3\<lparr>content := inner_html E (remove_after_hr (parse_body E file))\<rparr>))))"

text \<open>The condition under which \<^verbatim>\<open>showOlder\<close> calls \<^verbatim>\<open>prefetchMore\<close> (lines 243 to 248).\<close>

definition remaining :: "'w component \<Rightarrow> int" where
  "remaining s = int (length (log s)) - currentIndex s - 1"

definition showOlder :: "'w env \<Rightarrow> 'w component \<Rightarrow> completion \<times> 'w component" where
  "showOlder E s =
     (case (if remaining s \<le> fetchThreshold s \<and> \<not> fetchFailed s \<and> \<not> loadingMore s
            then prefetchMore E s else (Normal, s)) of
        (Thrown e, s1) \<Rightarrow> (Thrown e, s1)
      | (Normal, s1) \<Rightarrow>
          if currentIndex s1 < int (length (log s1)) - 1
          then let s2 = s1\<lparr>currentIndex := currentIndex s1 + 1\<rparr>
               in displayCommit E (currentIndex s2) s2
          else (Normal, s1))"

definition showNewer :: "'w env \<Rightarrow> 'w component \<Rightarrow> completion \<times> 'w component" where
  "showNewer E s =
     (if currentIndex s > 0
      then let s1 = s\<lparr>currentIndex := currentIndex s - 1\<rparr>
           in displayCommit E (currentIndex s1) s1
      else (Normal, s))"

text \<open>
  \<^verbatim>\<open>initializeRepo\<close>. The error of \<^verbatim>\<open>mkdir\<close> is swallowed; every other error leaves
  the method at once.
\<close>

definition initializeRepo :: "'w env \<Rightarrow> 'w component \<Rightarrow> completion \<times> 'w component" where
  "initializeRepo E s =
     (let fs = (case global_fs s of None \<Rightarrow> LightningFS ''fs'' | Some f \<Rightarrow> f);
          pfs = (case global_pfs s of None \<Rightarrow> Promises fs | Some p \<Rightarrow> p);
          s1 = s\<lparr>global_fs := Some fs, global_pfs := Some pfs, global_dir := Some ''/repo''\<rparr>;
          s2 = snd (call_mkdir E pfs ''/repo'' s1);
          s3 = updateStatus (''Loading '' @ number_text (initialDepth s2) @ '' commits...'') s2
      in
        (case cloneOrFetchRepo E (Some fs) Http_web (Some ''/repo'') (repoUrl s3) (branch s3)
                (Num (initialDepth s3)) s3 of
           (Thrown e, s4) \<Rightarrow> (Thrown e, s4)
         | (Normal, s4) \<Rightarrow>
             (case call_checkout E
                     \<lparr>co_fs = Some fs, co_dir = Some ''/repo'',
                      co_ref = ''origin/'' @ branch s4, co_force = None\<rparr> s4 of
                (Inl e, s5) \<Rightarrow> (Thrown e, s5)
              | (Inr _, s5) \<Rightarrow>
                  (case getCommits E (Some fs) (Some ''/repo'') (''origin/'' @ branch s5)
                          (Num (initialDepth s5)) s5 of
                     (Inl e, s6) \<Rightarrow> (Thrown e, s6)
                   | (Inr l, s6) \<Rightarrow>
                       (let s7 = updateStatus [] (s6\<lparr>log := l\<rparr>) in
                        if \<not> content_box s7
                        then (Thrown (TypeError ''.news-browser__content is null''), s7)
                        else displayCommit E 0 (s7\<lparr>animation := ''none''\<rparr>))))))"

section \<open>Observations and reachable states\<close>

text \<open>The calls made between a state and a later one.\<close>

definition new_calls :: "'w component \<Rightarrow> 'w component \<Rightarrow> call list" where
  "new_calls s s' = drop (length (calls s)) (calls s')"

definition is_fetch :: "call \<Rightarrow> bool" where
  "is_fetch e = (case e of Git_fetch _ _ \<Rightarrow> True | _ \<Rightarrow> False)"

text \<open>
  The operations of the component: the two click handlers, the methods they call, and
  the initialisation that \<^verbatim>\<open>connectedCallback\<close> starts.
\<close>

datatype operation = ShowOlder | ShowNewer | PrefetchMore | DisplayCommit int | InitializeRepo

fun run_op :: "'w env \<Rightarrow> operation \<Rightarrow> 'w component \<Rightarrow> completion \<times> 'w component" where
  "run_op E ShowOlder s = showOlder E s"
| "run_op E ShowNewer s = showNewer E s"
| "run_op E PrefetchMore s = prefetchMore E s"
| "run_op E (DisplayCommit index) s = displayCommit E index s"
| "run_op E InitializeRepo s = initializeRepo E s"

text \<open>
  The states of a component: what the constructor builds, and what the operations and
  changes of the attribute \<^verbatim>\<open>fetch-step\<close> make of it, whatever the library answers and
  however the world changes in between.
\<close>

inductive reachable :: "'w env \<Rightarrow> 'w component \<Rightarrow> bool" for E :: "'w env" where
  constructed: "reachable E (constructor a s0)"
| operation: "reachable E s \<Longrightarrow> reachable E (snd (run_op E x s))"
| outside: "reachable E s \<Longrightarrow> reachable E (s\<lparr>world := w\<rparr>)"
| attribute:
    "reachable E s \<Longrightarrow> reachable E (attributeChangedCallback_fetchStep oldValue newValue parsed s)"

text \<open>
  The same, through operations none of which leaves the commit list shorter than it
  found it.
\<close>

inductive reachable_growing :: "'w env \<Rightarrow> 'w component \<Rightarrow> bool" for E :: "'w env" where
  constructed_growing: "reachable_growing E (constructor a s0)"
| operation_growing:
    "reachable_growing E s \<Longrightarrow> length (log s) \<le> length (log (snd (run_op E x s))) \<Longrightarrow>
     reachable_growing E (snd (run_op E x s))"
| outside_growing: "reachable_growing E s \<Longrightarrow> reachable_growing E (s\<lparr>world := w\<rparr>)"
| attribute_growing:
    "reachable_growing E s \<Longrightarrow>
     reachable_growing E (attributeChangedCallback_fetchStep oldValue newValue parsed s)"

section \<open>An example world\<close>

text \<open>
  A small git for the examples: a remote history (newest commit first), the local
  repository once cloned, and the checked-out reference. \<^verbatim>\<open>clone\<close> fails when the
  repository exists already, \<^verbatim>\<open>fetch\<close> when there is none or when the depth asks for
  more commits than the remote has; \<^verbatim>\<open>log\<close> returns at most \<^verbatim>\<open>depth\<close> commits; a
  depth that is not a number is refused. The oldest commit has no \<^verbatim>\<open>index.html\<close>, and
  the one of the commit before it holds its \<^verbatim>\<open>hr\<close> inside a \<^verbatim>\<open>div\<close>.
\<close>

record git_world =
  remote :: "commit list"
  local_repo :: "commit list option"
  head :: string

definition demo_remote :: "commit list" where
  "demo_remote =
     [Commit ''c4'' (units ''fourth''), Commit ''c3'' (units ''third''),
      Commit ''c2'' (units ''second''), Commit ''c1'' (units ''first'')]"

definition demo_index_html :: string where
  "demo_index_html = ''<p>news</p><hr><p>footer</p>''"

definition demo_nested_html :: string where
  "demo_nested_html = ''<div><p>old</p><hr><p>more</p></div><p>footer</p>''"

definition demo_git_clone :: "net_args \<Rightarrow> git_world \<Rightarrow> unit result \<times> git_world" where
  "demo_git_clone a w =
     (case local_repo w of
        Some _ \<Rightarrow> (Inl (LibError ''repository exists''), w)
      | None \<Rightarrow>
          (case na_depth a of
             Num d \<Rightarrow> (Inr (), w\<lparr>local_repo := Some (take (nat d) (remote w))\<rparr>)
           | _ \<Rightarrow> (Inl (LibError ''bad depth''), w)))"

definition demo_git_fetch :: "net_args \<Rightarrow> git_world \<Rightarrow> unit result \<times> git_world" where
  "demo_git_fetch a w =
     (case local_repo w of
        None \<Rightarrow> (Inl (LibError ''no repository''), w)
      | Some _ \<Rightarrow>
          (case na_depth a of
             Num d \<Rightarrow>
               if int (length (remote w)) < d then (Inl (LibError ''no more commits''), w)
               else (Inr (), w\<lparr>local_repo := Some (take (nat d) (remote w))\<rparr>)
           | _ \<Rightarrow> (Inl (LibError ''bad depth''), w)))"

definition demo_git_log :: "log_args \<Rightarrow> git_world \<Rightarrow> commit list result \<times> git_world" where
  "demo_git_log a w =
     (case local_repo w of
        None \<Rightarrow> (Inl (LibError ''no repository''), w)
      | Some l \<Rightarrow>
          (case la_depth a of
             Num d \<Rightarrow> (Inr (take (nat d) l), w)
           | _ \<Rightarrow> (Inl (LibError ''bad depth''), w)))"

definition demo_git_checkout :: "checkout_args \<Rightarrow> git_world \<Rightarrow> unit result \<times> git_world" where
  "demo_git_checkout a w = (Inr (), w\<lparr>head := co_ref a\<rparr>)"

definition demo_mkdir :: "pfs_handle \<Rightarrow> string \<Rightarrow> git_world \<Rightarrow> unit result \<times> git_world" where
  "demo_mkdir p path w = (Inr (), w)"

definition demo_readFile ::
  "pfs_handle \<Rightarrow> string \<Rightarrow> string \<Rightarrow> git_world \<Rightarrow> string result \<times> git_world" where
  "demo_readFile p path enc w =
     (if head w = ''c1'' then (Inl (LibError ''ENOENT''), w)
      else if head w = ''c2'' then (Inr demo_nested_html, w)
      else (Inr demo_index_html, w))"

definition demo_parse_body :: "string \<Rightarrow> node list" where
  "demo_parse_body file =
     (if file = demo_index_html
      then [Element ''p'' [] [Text ''news''], Element ''hr'' [] [],
            Element ''p'' [] [Text ''footer'']]
      else if file = demo_nested_html
      then [Element ''div'' []
              [Element ''p'' [] [Text ''old''], Element ''hr'' [] [],
               Element ''p'' [] [Text ''more'']],
            Element ''p'' [] [Text ''footer'']]
      else [Text file])"

fun demo_serialize :: "node \<Rightarrow> string" where
  "demo_serialize (Text t) = t"
| "demo_serialize (Element tag as cs) =
     ''<'' @ tag @ ''>'' @ concat (map demo_serialize cs) @
     (if tag = ''hr'' then [] else ''</'' @ tag @ ''>'')"

definition demo_inner_html :: "node list \<Rightarrow> string" where
  "demo_inner_html ns = concat (map demo_serialize ns)"

definition demo_env :: "git_world env" where
  "demo_env =
     \<lparr>git_clone = demo_git_clone, git_fetch = demo_git_fetch, git_log = demo_git_log,
      git_checkout = demo_git_checkout, pfs_mkdir = demo_mkdir, pfs_readFile = demo_readFile,
      parse_body = demo_parse_body, inner_html = demo_inner_html\<rparr>"

text \<open>The element before its constructor has run, in a page whose template has every element.\<close>

definition demo_element :: "git_world component" where
  "demo_element =
     \<lparr>currentIndex = 0, fetchFailed = False, isFetching = False, loadingMore = False,
      log = [], branch = [], fetchStep = Null, fetchThreshold = 0, initialDepth = 0,
      repoUrl = [], status = Some [], commitInfo = Some [], content = [],
      backBtn = Some \<lparr>disabled = False, textContent = []\<rparr>,
      nextBtn = Some \<lparr>disabled = False, textContent = []\<rparr>,
      content_box = True, animation = [],
      global_fs = None, global_pfs = None, global_dir = None,
      world = \<lparr>remote = demo_remote, local_repo = None, head = []\<rparr>, calls = []\<rparr>"

definition demo_attrs :: "int option \<Rightarrow> int option \<Rightarrow> attrs" where
  "demo_attrs step depth =
     \<lparr>attr_branch = None, attr_fetch_step = step, attr_fetch_threshold = None,
      attr_initial_depth = depth, attr_repo_url = None\<rparr>"

text \<open>
  The component after its initialisation in the example world, for a fetch step and an
  initial depth of 1 to 4 (lemma \<open>demo_state_loaded\<close> below).
\<close>

definition demo_state :: "int \<Rightarrow> int \<Rightarrow> git_world component" where
  "demo_state step depth =
     \<lparr>currentIndex = 0, fetchFailed = False, isFetching = False, loadingMore = False,
      log = take (nat depth) demo_remote,
      branch = ''main'', fetchStep = Num step, fetchThreshold = 2, initialDepth = depth,
      repoUrl = ''https://github.com/kherrick/news-summary'',
      status = Some [],
      commitInfo = Some (units (''Commit 1/'' @ number_text depth @ '': fourth'')),
      content = ''<p>news</p><hr>'',
      backBtn = Some \<lparr>disabled = (depth \<le> 1), textContent = left_arrow @ '' Back (Older)''\<rparr>,
      nextBtn = Some \<lparr>disabled = True, textContent = []\<rparr>, content_box = True,
      animation = ''none'', global_fs = Some (LightningFS ''fs''),
      global_pfs = Some (Promises (LightningFS ''fs'')), global_dir = Some ''/repo'',
      world = \<lparr>remote = demo_remote, local_repo = Some (take (nat depth) demo_remote),
         head = ''c4''\<rparr>,
      calls =
        [Pfs_mkdir (Promises (LightningFS ''fs'')) ''/repo'' (Inr ()),
         Git_clone (clone_args (Some (LightningFS ''fs'')) Http_web (Some ''/repo'')
            ''https://github.com/kherrick/news-summary'' ''main'' (Num depth)) (Inr ()),
         Git_checkout \<lparr>co_fs = Some (LightningFS ''fs''), co_dir = Some ''/repo'',
            co_ref = ''origin/main'', co_force = None\<rparr> (Inr ()),
         Git_log \<lparr>la_fs = Some (LightningFS ''fs''), la_dir = Some ''/repo'',
            la_ref = ''origin/main'', la_depth = Num depth\<rparr>
           (Inr (take (nat depth) demo_remote)),
         Git_checkout \<lparr>co_fs = Some (LightningFS ''fs''), co_dir = Some ''/repo'',
            co_ref = ''c4'', co_force = Some True\<rparr> (Inr ()),
         Pfs_readFile (Promises (LightningFS ''fs'')) ''/repo/index.html'' ''utf8''
           (Inr demo_index_html)]\<rparr>"

text \<open>The example component after one click on the back button.\<close>

definition demo_paged :: "git_world component" where
  "demo_paged = snd (showOlder demo_env (demo_state (- 3) 4))"




section \<open>Lemmas about the methods\<close>

text \<open>The definitions to unfold when a method is run on the example world.\<close>

lemmas demo_defs = demo_env_def demo_element_def demo_attrs_def demo_remote_def demo_nested_html_def
  demo_index_html_def demo_git_clone_def demo_git_fetch_def demo_git_log_def demo_git_checkout_def
  demo_mkdir_def demo_readFile_def demo_parse_body_def demo_inner_html_def

lemmas op_defs = initializeRepo_def constructor_def or_number_def or_string_def updateStatus_def
  cloneOrFetchRepo_def clone_args_def call_clone_def call_fetch_def call_log_def call_checkout_def
  call_mkdir_def call_readFile_def getCommits_def checkoutCommit_def readIndexFile_def template_dir_def
  displayCommit_def updateUI_def log_at_def remove_after_hr_def no_index_markup_def
  showOlder_def showNewer_def prefetchMore_def prefetch_finally_def prefetch_fetch_args_def
  prefetch_log_args_def remaining_def targetDepth_def js_plus_def js_text_def round_double_def
  units_def

subsection \<open>What each method leaves unchanged, and what it calls\<close>

lemma updateStatus_frame [simp]:
  "currentIndex (updateStatus m s) = currentIndex s"
  "fetchFailed (updateStatus m s) = fetchFailed s"
  "isFetching (updateStatus m s) = isFetching s"
  "loadingMore (updateStatus m s) = loadingMore s"
  "log (updateStatus m s) = log s"
  "branch (updateStatus m s) = branch s"
  "fetchStep (updateStatus m s) = fetchStep s"
  "fetchThreshold (updateStatus m s) = fetchThreshold s"
  "initialDepth (updateStatus m s) = initialDepth s"
  "repoUrl (updateStatus m s) = repoUrl s"
  "commitInfo (updateStatus m s) = commitInfo s"
  "content (updateStatus m s) = content s"
  "content_box (updateStatus m s) = content_box s"
  "global_fs (updateStatus m s) = global_fs s"
  "global_pfs (updateStatus m s) = global_pfs s"
  "global_dir (updateStatus m s) = global_dir s"
  "world (updateStatus m s) = world s"
  "calls (updateStatus m s) = calls s"
  "status (updateStatus m s) = map_option (\<lambda>_. m) (status s)"
  by (simp_all add: updateStatus_def split: option.splits)

lemma updateUI_frame:
  assumes "updateUI s = (c, s')"
  shows "currentIndex s' = currentIndex s" "fetchFailed s' = fetchFailed s"
    "isFetching s' = isFetching s" "loadingMore s' = loadingMore s" "log s' = log s"
    "branch s' = branch s" "fetchStep s' = fetchStep s" "fetchThreshold s' = fetchThreshold s"
    "initialDepth s' = initialDepth s" "repoUrl s' = repoUrl s" "status s' = status s"
    "content s' = content s" "global_fs s' = global_fs s" "global_pfs s' = global_pfs s"
    "global_dir s' = global_dir s" "world s' = world s" "calls s' = calls s"
    "c = Normal \<longleftrightarrow> log_at s (currentIndex s) = None \<or> commitInfo s \<noteq> None"
  using assms
  by (auto simp: updateUI_def split: option.splits sum.splits prod.splits)

lemma prefetch_finally_frame:
  assumes "prefetch_finally s = (c, s')"
  shows "currentIndex s' = currentIndex s" "fetchFailed s' = fetchFailed s"
    "\<not> isFetching s'" "\<not> loadingMore s'" "log s' = log s"
    "fetchStep s' = fetchStep s" "fetchThreshold s' = fetchThreshold s"
    "global_fs s' = global_fs s" "global_pfs s' = global_pfs s"
    "global_dir s' = global_dir s" "world s' = world s" "calls s' = calls s"
    "content s' = content s"
    "status s' = map_option (\<lambda>_. if fetchFailed s then ''Reached oldest commit'' else []) (status s)"
    "c = Normal \<longleftrightarrow> log_at s (currentIndex s) = None \<or> commitInfo s \<noteq> None"
  using assms updateUI_frame[of "updateStatus (if fetchFailed s then ''Reached oldest commit'' else []) (s\<lparr>isFetching := False, loadingMore := False\<rparr>)" c s']
  by (simp_all add: prefetch_finally_def Let_def log_at_def)


lemma prefetchMore_guarded:
  "isFetching s \<or> fetchFailed s \<or> loadingMore s \<Longrightarrow>
   prefetchMore E s = (Normal, s\<lparr>calls := calls s @ [Enter_prefetchMore]\<rparr>)"
  by (auto simp: prefetchMore_def Let_def)

lemma prefetchMore_proceeds:
  assumes flags: "\<not> isFetching s" "\<not> fetchFailed s" "\<not> loadingMore s"
    and run: "prefetchMore E s = (c, s')"
    and d: "d = targetDepth s"
    and f: "git_fetch E (prefetch_fetch_args s d) (world s) = (r1, w1)"
    and l: "git_log E (prefetch_log_args s d) w1 = (r2, w2)"
  shows "calls s' = calls s @ Enter_prefetchMore # Git_fetch (prefetch_fetch_args s d) r1 #
           (case r1 of Inl _ \<Rightarrow> [] | Inr _ \<Rightarrow> [Git_log (prefetch_log_args s d) r2])"
    and "fetchFailed s' = (case r1 of Inl _ \<Rightarrow> True | Inr _ \<Rightarrow> (case r2 of Inl _ \<Rightarrow> True | Inr _ \<Rightarrow> False))"
    and "log s' = (case r1 of Inl _ \<Rightarrow> log s | Inr _ \<Rightarrow> (case r2 of Inl _ \<Rightarrow> log s | Inr l \<Rightarrow> l))"
    and "world s' = (case r1 of Inl _ \<Rightarrow> w1 | Inr _ \<Rightarrow> w2)"
    and "currentIndex s' = currentIndex s" and "\<not> isFetching s'" and "\<not> loadingMore s'"
    and "fetchThreshold s' = fetchThreshold s" and "fetchStep s' = fetchStep s"
    and "global_fs s' = global_fs s" and "global_pfs s' = global_pfs s"
    and "global_dir s' = global_dir s" and "content s' = content s"
    and "status s' = map_option (\<lambda>_. if fetchFailed s' then ''Reached oldest commit'' else []) (status s)"
proof -
  have fa: "prefetch_fetch_args (updateStatus m (s\<lparr>calls := cs, isFetching := True, loadingMore := True\<rparr>)) d
      = prefetch_fetch_args s d" for m cs
    by (simp add: prefetch_fetch_args_def)
  have la: "prefetch_log_args (t\<lparr>world := w, calls := cs\<rparr>) d = prefetch_log_args t d" for t :: "'a component" and w cs
    by (simp add: prefetch_log_args_def)
  have la2: "prefetch_log_args (updateStatus m (s\<lparr>calls := cs, isFetching := True, loadingMore := True\<rparr>)) d
      = prefetch_log_args s d" for m cs
    by (simp add: prefetch_log_args_def)
  have td: "targetDepth (s\<lparr>calls := cs, isFetching := True, loadingMore := True\<rparr>) = targetDepth s" for cs
    by (simp add: targetDepth_def)
  obtain t where t: "prefetch_finally t = (c, s')"
    and tc: "calls t = calls s @ Enter_prefetchMore # Git_fetch (prefetch_fetch_args s d) r1 #
           (case r1 of Inl _ \<Rightarrow> [] | Inr _ \<Rightarrow> [Git_log (prefetch_log_args s d) r2])"
    and tf: "fetchFailed t = (case r1 of Inl _ \<Rightarrow> True | Inr _ \<Rightarrow> (case r2 of Inl _ \<Rightarrow> True | Inr _ \<Rightarrow> False))"
    and tl: "log t = (case r1 of Inl _ \<Rightarrow> log s | Inr _ \<Rightarrow> (case r2 of Inl _ \<Rightarrow> log s | Inr l \<Rightarrow> l))"
    and tw: "world t = (case r1 of Inl _ \<Rightarrow> w1 | Inr _ \<Rightarrow> w2)"
    and ti: "currentIndex t = currentIndex s" "fetchThreshold t = fetchThreshold s"
      "fetchStep t = fetchStep s" "global_fs t = global_fs s" "global_pfs t = global_pfs s"
      "global_dir t = global_dir s" "content t = content s"
    and ts: "map_option (\<lambda>_. m) (status t) = map_option (\<lambda>_. m) (status s)" for m :: string
    using flags run f l unfolding d[symmetric]
    apply (cases r1; cases r2)
    apply (simp_all add: prefetchMore_def Let_def call_fetch_def call_log_def fa la la2 td d[symmetric]
        option.map_comp comp_def)
    done
  from prefetch_finally_frame[OF t] tc tf tl tw ti
  show "calls s' = calls s @ Enter_prefetchMore # Git_fetch (prefetch_fetch_args s d) r1 #
           (case r1 of Inl _ \<Rightarrow> [] | Inr _ \<Rightarrow> [Git_log (prefetch_log_args s d) r2])"
    and "fetchFailed s' = (case r1 of Inl _ \<Rightarrow> True | Inr _ \<Rightarrow> (case r2 of Inl _ \<Rightarrow> True | Inr _ \<Rightarrow> False))"
    and "log s' = (case r1 of Inl _ \<Rightarrow> log s | Inr _ \<Rightarrow> (case r2 of Inl _ \<Rightarrow> log s | Inr l \<Rightarrow> l))"
    and "world s' = (case r1 of Inl _ \<Rightarrow> w1 | Inr _ \<Rightarrow> w2)"
    and "currentIndex s' = currentIndex s" and "\<not> isFetching s'" and "\<not> loadingMore s'"
    and "fetchThreshold s' = fetchThreshold s" and "fetchStep s' = fetchStep s"
    and "global_fs s' = global_fs s" and "global_pfs s' = global_pfs s"
    and "global_dir s' = global_dir s" and "content s' = content s"
    by simp_all
  from prefetch_finally_frame[OF t] ts[of "if fetchFailed t then ''Reached oldest commit'' else []"]
  show "status s' = map_option (\<lambda>_. if fetchFailed s' then ''Reached oldest commit'' else []) (status s)"
    by simp
qed


lemma displayCommit_out_of_range:
  "index < 0 \<or> index \<ge> int (length (log s)) \<Longrightarrow> displayCommit E index s = (Normal, s)"
  by (simp add: displayCommit_def)

lemma displayCommit_unfold:
  assumes rng: "0 \<le> index" "index < int (length (log s))"
    and co: "git_checkout E \<lparr>co_fs = global_fs s, co_dir = global_dir s,
               co_ref = oid (log s ! nat index), co_force = Some True\<rparr> (world s) = (r1, w1)"
    and rd: "rd = (case global_pfs s of
                     None \<Rightarrow> (Inl (TypeError ''pfs is undefined''), w1)
                   | Some p \<Rightarrow> pfs_readFile E p (template_dir (global_dir s) @ ''/index.html'') ''utf8'' w1)"
  shows "displayCommit E index s =
     (case r1 of
        Inl e \<Rightarrow> (Thrown e, s\<lparr>currentIndex := index, world := w1,
                     calls := calls s @ [Git_checkout \<lparr>co_fs = global_fs s, co_dir = global_dir s,
                        co_ref = oid (log s ! nat index), co_force = Some True\<rparr> r1]\<rparr>)
      | Inr _ \<Rightarrow> updateUI (s\<lparr>currentIndex := index, world := snd rd,
                     calls := calls s @ Git_checkout \<lparr>co_fs = global_fs s, co_dir = global_dir s,
                        co_ref = oid (log s ! nat index), co_force = Some True\<rparr> r1 #
                        (case global_pfs s of None \<Rightarrow> []
                         | Some p \<Rightarrow> [Pfs_readFile p (template_dir (global_dir s) @ ''/index.html'') ''utf8'' (fst rd)]),
                     content := (case fst rd of Inl _ \<Rightarrow> no_index_markup
                        | Inr file \<Rightarrow> inner_html E (remove_after_hr (parse_body E file)))\<rparr>))"
proof (cases r1)
  case (Inl e)
  with rng co show ?thesis
    by (simp add: displayCommit_def Let_def checkoutCommit_def call_checkout_def)
next
  case (Inr u)
  show ?thesis
  proof (cases "global_pfs s")
    case None
    with Inr rng co rd show ?thesis
      by (simp add: displayCommit_def Let_def checkoutCommit_def call_checkout_def readIndexFile_def)
  next
    case (Some p)
    obtain r2 w2 where r2: "pfs_readFile E p (template_dir (global_dir s) @ ''/index.html'') ''utf8'' w1 = (r2, w2)"
      by (cases "pfs_readFile E p (template_dir (global_dir s) @ ''/index.html'') ''utf8'' w1")
    with Some Inr rng co rd show ?thesis
      by (cases r2) (simp_all add: displayCommit_def Let_def checkoutCommit_def call_checkout_def
          readIndexFile_def call_readFile_def)
  qed
qed


lemma displayCommit_in_range:
  assumes rng: "0 \<le> index" "index < int (length (log s))"
    and run: "displayCommit E index s = (c, s')"
    and co: "git_checkout E \<lparr>co_fs = global_fs s, co_dir = global_dir s,
               co_ref = oid (log s ! nat index), co_force = Some True\<rparr> (world s) = (r1, w1)"
    and rd: "rd = (case global_pfs s of
                     None \<Rightarrow> (Inl (TypeError ''pfs is undefined''), w1)
                   | Some p \<Rightarrow> pfs_readFile E p (template_dir (global_dir s) @ ''/index.html'') ''utf8'' w1)"
  shows "currentIndex s' = index \<and> log s' = log s \<and> fetchFailed s' = fetchFailed s \<and>
    isFetching s' = isFetching s \<and> loadingMore s' = loadingMore s \<and>
    fetchThreshold s' = fetchThreshold s \<and> fetchStep s' = fetchStep s \<and>
    global_fs s' = global_fs s \<and> global_pfs s' = global_pfs s \<and>
    global_dir s' = global_dir s \<and> status s' = status s \<and>
    calls s' = calls s @
           Git_checkout \<lparr>co_fs = global_fs s, co_dir = global_dir s,
               co_ref = oid (log s ! nat index), co_force = Some True\<rparr> r1 #
           (case r1 of Inl _ \<Rightarrow> []
            | Inr _ \<Rightarrow> (case global_pfs s of None \<Rightarrow> []
                | Some p \<Rightarrow> [Pfs_readFile p (template_dir (global_dir s) @ ''/index.html'') ''utf8'' (fst rd)])) \<and>
    content s' =
           (case r1 of Inl _ \<Rightarrow> content s
            | Inr _ \<Rightarrow> (case fst rd of Inl _ \<Rightarrow> no_index_markup
                | Inr file \<Rightarrow> inner_html E (remove_after_hr (parse_body E file)))) \<and>
    world s' = (case r1 of Inl _ \<Rightarrow> w1 | Inr _ \<Rightarrow> snd rd) \<and>
    (c = Normal \<longleftrightarrow> (\<exists>u. r1 = Inr u) \<and> commitInfo s \<noteq> None) \<and>
    (\<forall>e. r1 = Inl e \<longrightarrow> c = Thrown e)"
proof (cases r1)
  case (Inl e)
  with displayCommit_unfold[OF rng co rd] run
  have "c = Thrown e" and "s' = s\<lparr>currentIndex := index, world := w1,
                     calls := calls s @ [Git_checkout \<lparr>co_fs = global_fs s, co_dir = global_dir s,
                        co_ref = oid (log s ! nat index), co_force = Some True\<rparr> r1]\<rparr>"
    by simp_all
  with Inl show ?thesis by simp
next
  case (Inr v)
  with displayCommit_unfold[OF rng co rd] run
  have ui: "updateUI (s\<lparr>currentIndex := index, world := snd rd,
                     calls := calls s @ Git_checkout \<lparr>co_fs = global_fs s, co_dir = global_dir s,
                        co_ref = oid (log s ! nat index), co_force = Some True\<rparr> r1 #
                        (case global_pfs s of None \<Rightarrow> []
                         | Some p \<Rightarrow> [Pfs_readFile p (template_dir (global_dir s) @ ''/index.html'') ''utf8'' (fst rd)]),
                     content := (case fst rd of Inl _ \<Rightarrow> no_index_markup
                        | Inr file \<Rightarrow> inner_html E (remove_after_hr (parse_body E file)))\<rparr>) = (c, s')"
    by simp
  from updateUI_frame[OF ui] Inr rng show ?thesis
    by (simp add: log_at_def)
qed


lemma is_fetch_simps [simp]:
  "is_fetch (Git_fetch a r)" "\<not> is_fetch Enter_prefetchMore" "\<not> is_fetch (Git_clone a r)"
  "\<not> is_fetch (Git_log la rl)" "\<not> is_fetch (Git_checkout ca r)" "\<not> is_fetch (Pfs_mkdir p path r)"
  "\<not> is_fetch (Pfs_readFile p path enc rf)"
  by (simp_all add: is_fetch_def)

lemma displayCommit_frame:
  assumes run: "displayCommit E index s = (c, s')"
  shows "log s' = log s \<and> fetchFailed s' = fetchFailed s \<and> isFetching s' = isFetching s \<and>
    loadingMore s' = loadingMore s \<and> fetchThreshold s' = fetchThreshold s \<and>
    fetchStep s' = fetchStep s \<and>
    (currentIndex s' = index \<and> 0 \<le> index \<and> index < int (length (log s)) \<or> s' = s \<and> c = Normal) \<and>
    (\<exists>evs. calls s' = calls s @ evs \<and> (\<forall>e\<in>set evs. \<not> is_fetch e \<and> e \<noteq> Enter_prefetchMore))"
proof (cases "0 \<le> index \<and> index < int (length (log s))")
  case True
  obtain r1 w1 where co: "git_checkout E \<lparr>co_fs = global_fs s, co_dir = global_dir s,
               co_ref = oid (log s ! nat index), co_force = Some True\<rparr> (world s) = (r1, w1)"
    by (cases "git_checkout E \<lparr>co_fs = global_fs s, co_dir = global_dir s,
               co_ref = oid (log s ! nat index), co_force = Some True\<rparr> (world s)")
  from True displayCommit_in_range[OF _ _ run co refl] show ?thesis
    by (auto split: sum.splits option.splits)
next
  case False
  with run displayCommit_out_of_range[of index s E] show ?thesis by auto
qed

lemma prefetchMore_frame:
  assumes run: "prefetchMore E s = (c, s')"
  shows "currentIndex s' = currentIndex s \<and> fetchThreshold s' = fetchThreshold s \<and>
    fetchStep s' = fetchStep s \<and>
    (\<exists>evs. calls s' = calls s @ Enter_prefetchMore # evs \<and> Enter_prefetchMore \<notin> set evs \<and>
       ((\<exists>e\<in>set evs. is_fetch e) \<longleftrightarrow> \<not> isFetching s \<and> \<not> fetchFailed s \<and> \<not> loadingMore s))"
proof (cases "isFetching s \<or> fetchFailed s \<or> loadingMore s")
  case True
  from prefetchMore_guarded[OF True, of E] run True show ?thesis by auto
next
  case False
  obtain r1 w1 where f: "git_fetch E (prefetch_fetch_args s (targetDepth s)) (world s) = (r1, w1)"
    by (cases "git_fetch E (prefetch_fetch_args s (targetDepth s)) (world s)")
  obtain r2 w2 where l: "git_log E (prefetch_log_args s (targetDepth s)) w1 = (r2, w2)"
    by (cases "git_log E (prefetch_log_args s (targetDepth s)) w1")
  from False have flags: "\<not> isFetching s" "\<not> fetchFailed s" "\<not> loadingMore s" by simp_all
  from prefetchMore_proceeds[OF flags run refl f l] flags show ?thesis
    by (cases r1) simp_all
qed

lemma showOlder_split:
  assumes "showOlder E s = (c, s')"
    and "(if remaining s \<le> fetchThreshold s \<and> \<not> fetchFailed s \<and> \<not> loadingMore s
            then prefetchMore E s else (Normal, s)) = (c1, s1)"
  shows "(c1 \<noteq> Normal \<and> c = c1 \<and> s' = s1) \<or>
     (c1 = Normal \<and> \<not> currentIndex s1 < int (length (log s1)) - 1 \<and> c = Normal \<and> s' = s1) \<or>
     (c1 = Normal \<and> currentIndex s1 < int (length (log s1)) - 1 \<and>
        displayCommit E (currentIndex s1 + 1) (s1\<lparr>currentIndex := currentIndex s1 + 1\<rparr>) = (c, s'))"
  using assms by (cases c1) (auto simp: showOlder_def Let_def split: if_splits)

lemma showOlder_failed_calls:
  assumes "fetchFailed s"
  shows "\<forall>x\<in>set (new_calls s (snd (showOlder E s))). \<not> is_fetch x"
proof (cases "currentIndex s < int (length (log s)) - 1")
  case True
  obtain c s' where run:
    "displayCommit E (currentIndex s + 1) (s\<lparr>currentIndex := currentIndex s + 1\<rparr>) = (c, s')"
    by (cases "displayCommit E (currentIndex s + 1) (s\<lparr>currentIndex := currentIndex s + 1\<rparr>)")
  from displayCommit_frame[OF run] obtain evs where
    "calls s' = calls s @ evs" "\<forall>e\<in>set evs. \<not> is_fetch e"
    by auto
  with assms True run show ?thesis
    by (simp add: showOlder_def Let_def new_calls_def)
next
  case False
  with assms show ?thesis
    by (simp add: showOlder_def new_calls_def)
qed

lemma showNewer_index:
  "currentIndex (snd (showNewer E s)) = (if 0 < currentIndex s then currentIndex s - 1 else currentIndex s) \<and>
   log (snd (showNewer E s)) = log s"
proof (cases "0 < currentIndex s")
  case True
  obtain c s' where run: "displayCommit E (currentIndex s - 1) (s\<lparr>currentIndex := currentIndex s - 1\<rparr>) = (c, s')"
    by (cases "displayCommit E (currentIndex s - 1) (s\<lparr>currentIndex := currentIndex s - 1\<rparr>)")
  from displayCommit_frame[OF run] True run show ?thesis
    by (auto simp: showNewer_def Let_def)
next
  case False
  then show ?thesis by (simp add: showNewer_def)
qed

lemma showOlder_index:
  "currentIndex (snd (showOlder E s)) =
     (if (remaining s \<le> fetchThreshold s \<and> \<not> fetchFailed s \<and> \<not> loadingMore s \<longrightarrow>
            fst (prefetchMore E s) = Normal) \<and>
         currentIndex s < int (length (log (snd (showOlder E s)))) - 1
      then currentIndex s + 1 else currentIndex s) \<and>
   log (snd (showOlder E s)) =
     (if remaining s \<le> fetchThreshold s \<and> \<not> fetchFailed s \<and> \<not> loadingMore s
      then log (snd (prefetchMore E s)) else log s)"
proof -
  define trig where "trig = (remaining s \<le> fetchThreshold s \<and> \<not> fetchFailed s \<and> \<not> loadingMore s)"
  obtain c s' where run: "showOlder E s = (c, s')"
    by (cases "showOlder E s")
  obtain c1 s1 where pre: "(if trig then prefetchMore E s else (Normal, s)) = (c1, s1)"
    by (cases "if trig then prefetchMore E s else (Normal, s)")
  have s1: "currentIndex s1 = currentIndex s \<and> (trig \<longrightarrow> prefetchMore E s = (c1, s1)) \<and>
      (\<not> trig \<longrightarrow> c1 = Normal \<and> s1 = s)"
  proof (cases trig)
    case True
    with pre have "prefetchMore E s = (c1, s1)" by simp
    from prefetchMore_frame[OF this] this True show ?thesis by simp
  next
    case False
    with pre show ?thesis by simp
  qed
  from showOlder_split[OF run pre[unfolded trig_def]]
  consider (thrown) "c1 \<noteq> Normal" "s' = s1"
    | (stay) "c1 = Normal" "\<not> currentIndex s1 < int (length (log s1)) - 1" "s' = s1"
    | (move) "c1 = Normal" "currentIndex s1 < int (length (log s1)) - 1"
        "displayCommit E (currentIndex s1 + 1) (s1\<lparr>currentIndex := currentIndex s1 + 1\<rparr>) = (c, s')"
    by blast
  then have "currentIndex s' =
     (if (trig \<longrightarrow> fst (prefetchMore E s) = Normal) \<and> currentIndex s < int (length (log s')) - 1
      then currentIndex s + 1 else currentIndex s) \<and>
     log s' = (if trig then log (snd (prefetchMore E s)) else log s)"
  proof cases
    case thrown
    with s1 show ?thesis by (cases trig) auto
  next
    case stay
    with s1 show ?thesis by (cases trig) auto
  next
    case move
    from displayCommit_frame[OF move(3)] move(1,2) s1 show ?thesis
      by (cases trig) auto
  qed
  then show ?thesis
    unfolding trig_def by (simp add: run)
qed

subsection \<open>The example world, evaluated\<close>

lemma demo_state_loaded:
  "initializeRepo demo_env (constructor (demo_attrs None (Some 3)) demo_element) =
     (Normal, demo_state 10 3)"
  "initializeRepo demo_env (constructor (demo_attrs (Some (- 3)) (Some 4)) demo_element) =
     (Normal, demo_state (- 3) 4)"
  by (simp_all add: demo_state_def demo_defs op_defs Let_def commit_line_def number_text_def
      decimal.simps trim_def first_line_def is_space_def)

lemmas demo_state_simps = demo_state_def demo_remote_def targetDepth_def js_plus_def
  round_double_def


subsection \<open>The course of initializeRepo\<close>

lemma call_mkdir_frame:
  "snd (call_mkdir E p path s) =
     s\<lparr>world := snd (pfs_mkdir E p path (world s)),
       calls := calls s @ [Pfs_mkdir p path (fst (pfs_mkdir E p path (world s)))]\<rparr>"
  by (simp add: call_mkdir_def split: prod.splits)

lemma call_checkout_frame:
  assumes "call_checkout E a s = (r, s')"
  shows "s' = s\<lparr>world := snd (git_checkout E a (world s)), calls := calls s @ [Git_checkout a r]\<rparr>"
  using assms by (auto simp: call_checkout_def split: prod.splits)

lemma call_log_frame:
  assumes "call_log E a s = (r, s')"
  shows "s' = s\<lparr>world := snd (git_log E a (world s)), calls := calls s @ [Git_log a r]\<rparr>"
  using assms by (auto simp: call_log_def split: prod.splits)

lemma cloneOrFetchRepo_frame:
  assumes "cloneOrFetchRepo E fs http dir url b d s = (c, s')"
  shows "\<exists>w r1 fb. s' = s\<lparr>world := w, calls := calls s @ Git_clone (clone_args fs http dir url b d) r1 # fb\<rparr> \<and>
     (r1 = Inr () \<and> fb = [] \<or>
      (\<exists>e r2. r1 = Inl e \<and> fb = [Git_fetch (clone_args fs http dir url b d) r2] \<and>
         (c = Normal \<longrightarrow> r2 = Inr ())))"
proof -
  obtain r1 w1 where cl: "git_clone E (clone_args fs http dir url b d) (world s) = (r1, w1)"
    by (cases "git_clone E (clone_args fs http dir url b d) (world s)")
  obtain r2 w2 where fe: "git_fetch E (clone_args fs http dir url b d) w1 = (r2, w2)"
    by (cases "git_fetch E (clone_args fs http dir url b d) w1")
  show ?thesis
  proof (cases r1)
    case (Inl e)
    with cl fe assms
    have "s' = s\<lparr>world := w2, calls := calls s @ Git_clone (clone_args fs http dir url b d) r1 #
        [Git_fetch (clone_args fs http dir url b d) r2]\<rparr>" and "c = Normal \<longrightarrow> r2 = Inr ()"
      by (cases r2; simp add: cloneOrFetchRepo_def call_clone_def call_fetch_def; blast)+
    with Inl show ?thesis by blast
  next
    case (Inr u)
    with cl assms
    have "s' = s\<lparr>world := w1, calls := calls s @ Git_clone (clone_args fs http dir url b d) r1 # []\<rparr>"
      by (auto simp add: cloneOrFetchRepo_def call_clone_def)
    with Inr show ?thesis
      by (intro exI[of _ w1] exI[of _ r1] exI[of _ "[]"]) simp
  qed
qed

lemma initializeRepo_cases:
  assumes run: "initializeRepo E s = (c, s')"
    and fs: "fs = (case global_fs s of None \<Rightarrow> LightningFS ''fs'' | Some f \<Rightarrow> f)"
    and pfs: "pfs = (case global_pfs s of None \<Rightarrow> Promises fs | Some p \<Rightarrow> p)"
    and A: "A = clone_args (Some fs) Http_web (Some ''/repo'') (repoUrl s) (branch s) (Num (initialDepth s))"
  shows "(\<exists>r0 r1 fb commits s7.
            content_box s \<and>
            calls s7 = calls s @ Pfs_mkdir pfs ''/repo'' r0 # Git_clone A r1 # fb @
               [Git_checkout \<lparr>co_fs = Some fs, co_dir = Some ''/repo'',
                   co_ref = ''origin/'' @ branch s, co_force = None\<rparr> (Inr ()),
                Git_log \<lparr>la_fs = Some fs, la_dir = Some ''/repo'',
                   la_ref = ''origin/'' @ branch s, la_depth = Num (initialDepth s)\<rparr> (Inr commits)] \<and>
            (r1 = Inr () \<and> fb = [] \<or> (\<exists>e. r1 = Inl e) \<and> fb = [Git_fetch A (Inr ())]) \<and>
            log s7 = commits \<and> currentIndex s7 = currentIndex s \<and>
            global_fs s7 = Some fs \<and> global_dir s7 = Some ''/repo'' \<and>
            displayCommit E 0 s7 = (c, s')) \<or>
         (c \<noteq> Normal \<and> currentIndex s' = currentIndex s \<and>
            (\<exists>r0 r1 rest. calls s' = calls s @ Pfs_mkdir pfs ''/repo'' r0 # Git_clone A r1 # rest))"
proof -
  define s1 where "s1 = s\<lparr>global_fs := Some fs, global_pfs := Some pfs, global_dir := Some ''/repo''\<rparr>"
  define s2 where "s2 = snd (call_mkdir E pfs ''/repo'' s1)"
  define s3 where "s3 = updateStatus (''Loading '' @ number_text (initialDepth s2) @ '' commits...'') s2"
  define r0 where "r0 = fst (pfs_mkdir E pfs ''/repo'' (world s))"
  have s3: "calls s3 = calls s @ [Pfs_mkdir pfs ''/repo'' r0]" "currentIndex s3 = currentIndex s"
    "repoUrl s3 = repoUrl s" "branch s3 = branch s" "initialDepth s3 = initialDepth s"
    "content_box s3 = content_box s" "global_fs s3 = Some fs" "global_dir s3 = Some ''/repo''"
    by (simp_all add: s3_def s2_def s1_def r0_def call_mkdir_frame)
  obtain c4 s4 where c4: "cloneOrFetchRepo E (Some fs) Http_web (Some ''/repo'') (repoUrl s3) (branch s3)
                (Num (initialDepth s3)) s3 = (c4, s4)"
    by (cases "cloneOrFetchRepo E (Some fs) Http_web (Some ''/repo'') (repoUrl s3) (branch s3)
                (Num (initialDepth s3)) s3")
  from cloneOrFetchRepo_frame[OF c4] s3 A
  obtain r1 fb where s4: "calls s4 = calls s @ Pfs_mkdir pfs ''/repo'' r0 # Git_clone A r1 # fb"
    "currentIndex s4 = currentIndex s" "branch s4 = branch s" "initialDepth s4 = initialDepth s"
    "content_box s4 = content_box s" "global_fs s4 = Some fs" "global_dir s4 = Some ''/repo''"
    "r1 = Inr () \<and> fb = [] \<or> (\<exists>e r2. r1 = Inl e \<and> fb = [Git_fetch A r2] \<and> (c4 = Normal \<longrightarrow> r2 = Inr ()))"
    by auto
  obtain r5 s5 where c5: "call_checkout E \<lparr>co_fs = Some fs, co_dir = Some ''/repo'',
                      co_ref = ''origin/'' @ branch s4, co_force = None\<rparr> s4 = (r5, s5)"
    by (cases "call_checkout E \<lparr>co_fs = Some fs, co_dir = Some ''/repo'',
                      co_ref = ''origin/'' @ branch s4, co_force = None\<rparr> s4")
  from call_checkout_frame[OF c5] s4
  have s5: "calls s5 = calls s @ Pfs_mkdir pfs ''/repo'' r0 # Git_clone A r1 # fb @
      [Git_checkout \<lparr>co_fs = Some fs, co_dir = Some ''/repo'', co_ref = ''origin/'' @ branch s, co_force = None\<rparr> r5]"
    "currentIndex s5 = currentIndex s" "branch s5 = branch s" "initialDepth s5 = initialDepth s"
    "content_box s5 = content_box s" "global_fs s5 = Some fs" "global_dir s5 = Some ''/repo''"
    by simp_all
  obtain r6 s6 where c6: "getCommits E (Some fs) (Some ''/repo'') (''origin/'' @ branch s5)
                          (Num (initialDepth s5)) s5 = (r6, s6)"
    by (cases "getCommits E (Some fs) (Some ''/repo'') (''origin/'' @ branch s5)
                          (Num (initialDepth s5)) s5")
  from call_log_frame[OF c6[unfolded getCommits_def]] s5
  have s6: "calls s6 = calls s @ Pfs_mkdir pfs ''/repo'' r0 # Git_clone A r1 # fb @
      [Git_checkout \<lparr>co_fs = Some fs, co_dir = Some ''/repo'', co_ref = ''origin/'' @ branch s, co_force = None\<rparr> r5,
       Git_log \<lparr>la_fs = Some fs, la_dir = Some ''/repo'', la_ref = ''origin/'' @ branch s,
          la_depth = Num (initialDepth s)\<rparr> r6]"
    "currentIndex s6 = currentIndex s" "content_box s6 = content_box s"
    "global_fs s6 = Some fs" "global_dir s6 = Some ''/repo''"
    by simp_all
  have unf: "initializeRepo E s =
      (case c4 of Thrown e \<Rightarrow> (Thrown e, s4)
       | Normal \<Rightarrow>
          (case r5 of Inl e \<Rightarrow> (Thrown e, s5)
           | Inr _ \<Rightarrow>
              (case r6 of Inl e \<Rightarrow> (Thrown e, s6)
               | Inr l \<Rightarrow>
                  if \<not> content_box s
                  then (Thrown (TypeError ''.news-browser__content is null''), updateStatus [] (s6\<lparr>log := l\<rparr>))
                  else displayCommit E 0 ((updateStatus [] (s6\<lparr>log := l\<rparr>))\<lparr>animation := ''none''\<rparr>))))"
    unfolding initializeRepo_def Let_def fs[symmetric] pfs[symmetric] s1_def[symmetric]
      s2_def[symmetric] s3_def[symmetric] c4
    using c5 c6 s6(3)
    by (cases c4; cases r5; cases r6; simp)
  show ?thesis
  proof (cases c4)
    case (Thrown e)
    with unf run s4 show ?thesis by auto
  next
    case Normal
    note c4n = this
    show ?thesis
    proof (cases r5)
      case (Inl e)
      with unf run c4n s5 show ?thesis by auto
    next
      case (Inr u)
      note r5n = this
      show ?thesis
      proof (cases r6)
        case (Inl e)
        with unf run c4n r5n s6 show ?thesis by auto
      next
        case (Inr l)
        show ?thesis
        proof (cases "content_box s")
          case False
          with unf run c4n r5n Inr s6 show ?thesis by auto
        next
          case True
          let ?s7 = "(updateStatus [] (s6\<lparr>log := l\<rparr>))\<lparr>animation := ''none''\<rparr>"
          from unf run c4n r5n Inr True have d: "displayCommit E 0 ?s7 = (c, s')" by simp
          have "calls ?s7 = calls s @ Pfs_mkdir pfs ''/repo'' r0 # Git_clone A r1 # fb @
               [Git_checkout \<lparr>co_fs = Some fs, co_dir = Some ''/repo'',
                   co_ref = ''origin/'' @ branch s, co_force = None\<rparr> (Inr ()),
                Git_log \<lparr>la_fs = Some fs, la_dir = Some ''/repo'',
                   la_ref = ''origin/'' @ branch s, la_depth = Num (initialDepth s)\<rparr> (Inr l)]"
            using s6 r5n Inr by simp
          moreover have "log ?s7 = l" "currentIndex ?s7 = currentIndex s"
            "global_fs ?s7 = Some fs" "global_dir ?s7 = Some ''/repo''"
            using s6 by simp_all
          moreover have "r1 = Inr () \<and> fb = [] \<or> (\<exists>e. r1 = Inl e) \<and> fb = [Git_fetch A (Inr ())]"
            using s4(8) c4n by auto
          ultimately show ?thesis using d True by blast
        qed
      qed
    qed
  qed
qed


subsection \<open>The index in reachable states\<close>

lemma run_op_index:
  assumes run: "run_op E x s = (c, s')"
  shows "currentIndex s' = currentIndex s \<or>
         currentIndex s' = currentIndex s - 1 \<and> 0 < currentIndex s \<and> log s' = log s \<or>
         currentIndex s' = currentIndex s + 1 \<and> currentIndex s' < int (length (log s')) \<or>
         0 \<le> currentIndex s' \<and> currentIndex s' < int (length (log s'))"
proof (cases x)
  case ShowOlder
  with run showOlder_index[of E s] show ?thesis
    by (auto split: if_splits)
next
  case ShowNewer
  with run showNewer_index[of E s] show ?thesis
    by (auto split: if_splits)
next
  case PrefetchMore
  with run prefetchMore_frame[of E s c s'] show ?thesis by simp
next
  case (DisplayCommit index)
  with run displayCommit_frame[of E index s c s'] show ?thesis by auto
next
  case InitializeRepo
  with run have i: "initializeRepo E s = (c, s')" by simp
  from initializeRepo_cases[OF i refl refl refl]
  consider s7 where "currentIndex s7 = currentIndex s" "displayCommit E 0 s7 = (c, s')"
    | "currentIndex s' = currentIndex s"
    by blast
  then show ?thesis
  proof cases
    case 1
    from displayCommit_frame[OF 1(2)] 1(1) show ?thesis by auto
  next
    case 2
    then show ?thesis by simp
  qed
qed

lemma reachable_index_nonneg: "reachable E s \<Longrightarrow> 0 \<le> currentIndex s"
proof (induction rule: reachable.induct)
  case (constructed a s0)
  show ?case by (simp add: constructor_def)
next
  case (operation s x)
  obtain c s' where run: "run_op E x s = (c, s')"
    by (cases "run_op E x s")
  from run_op_index[OF run] operation.IH show ?case
    by (auto simp: run)
next
  case (outside s w)
  then show ?case by simp
next
  case (attribute s oldValue newValue parsed)
  then show ?case by (simp add: attributeChangedCallback_fetchStep_def)
qed

lemma reachable_growing_index:
  "reachable_growing E s \<Longrightarrow>
     0 \<le> currentIndex s \<and> (currentIndex s < int (length (log s)) \<or> currentIndex s = 0)"
proof (induction rule: reachable_growing.induct)
  case (constructed_growing a s0)
  show ?case by (simp add: constructor_def)
next
  case (operation_growing s x)
  obtain c s' where run: "run_op E x s = (c, s')"
    by (cases "run_op E x s")
  from run_op_index[OF run] operation_growing.IH operation_growing.hyps(2) show ?case
    by (auto simp: run)
next
  case (outside_growing s w)
  then show ?case by simp
next
  case (attribute_growing s oldValue newValue parsed)
  then show ?case by (simp add: attributeChangedCallback_fetchStep_def)
qed

subsection \<open>More of the example world\<close>

lemma demo_state_reachable:
  "reachable demo_env (demo_state 10 3)" "reachable demo_env (demo_state (- 3) 4)"
proof -
  have "reachable demo_env (snd (run_op demo_env InitializeRepo
      (constructor (demo_attrs None (Some 3)) demo_element)))"
    by (rule reachable.operation) (rule reachable.constructed)
  then show "reachable demo_env (demo_state 10 3)"
    by (simp add: demo_state_loaded)
  have "reachable demo_env (snd (run_op demo_env InitializeRepo
      (constructor (demo_attrs (Some (- 3)) (Some 4)) demo_element)))"
    by (rule reachable.operation) (rule reachable.constructed)
  then show "reachable demo_env (demo_state (- 3) 4)"
    by (simp add: demo_state_loaded)
qed

lemma demo_older:
  "currentIndex demo_paged = 1 \<and>
   length (log demo_paged) = 4 \<and>
   currentIndex (snd (showOlder demo_env demo_paged)) = 1 \<and>
   length (log (snd (showOlder demo_env demo_paged))) = 1"
  by (simp add: demo_paged_def demo_state_simps demo_defs op_defs Let_def commit_line_def number_text_def
      decimal.simps trim_def first_line_def is_space_def)

lemma demo_state_reachable_growing: "reachable_growing demo_env (demo_state (- 3) 4)"
proof -
  have "reachable_growing demo_env (snd (run_op demo_env InitializeRepo
      (constructor (demo_attrs (Some (- 3)) (Some 4)) demo_element)))"
  proof (rule reachable_growing.operation_growing)
    show "reachable_growing demo_env (constructor (demo_attrs (Some (- 3)) (Some 4)) demo_element)"
      by (rule reachable_growing.constructed_growing)
    show "length (log (constructor (demo_attrs (Some (- 3)) (Some 4)) demo_element)) \<le>
      length (log (snd (run_op demo_env InitializeRepo
        (constructor (demo_attrs (Some (- 3)) (Some 4)) demo_element))))"
      by (simp add: constructor_def)
  qed
  then show ?thesis
    by (simp add: demo_state_loaded)
qed


subsection \<open>Normal completion of prefetchMore\<close>



subsection \<open>The cut at the first hr, and the update of the commit line and the buttons\<close>












section \<open>The claims\<close>

text \<open>
  Claim C1. A call to \<^verbatim>\<open>showOlder\<close> enters \<^verbatim>\<open>prefetchMore\<close> exactly when the number of
  commits behind the current one, \<^verbatim>\<open>log.length - currentIndex - 1\<close>, is at most
  \<^verbatim>\<open>fetchThreshold\<close> and neither \<^verbatim>\<open>fetchFailed\<close> nor \<^verbatim>\<open>loadingMore\<close> is set; in every
  other state it makes no \<^verbatim>\<open>git.fetch\<close>. More precisely it makes a \<^verbatim>\<open>git.fetch\<close> exactly
  when, in addition, \<^verbatim>\<open>isFetching\<close> is not set (the guard of \<^verbatim>\<open>prefetchMore\<close> itself).
\<close>

theorem showOlder_prefetch_iff:
  "(Enter_prefetchMore \<in> set (new_calls s (snd (showOlder E s))) \<longleftrightarrow>
      remaining s \<le> fetchThreshold s \<and> \<not> fetchFailed s \<and> \<not> loadingMore s) \<and>
   ((\<exists>e\<in>set (new_calls s (snd (showOlder E s))). is_fetch e) \<longleftrightarrow>
      remaining s \<le> fetchThreshold s \<and> \<not> fetchFailed s \<and> \<not> loadingMore s \<and> \<not> isFetching s)"
proof -
  define trig where "trig = (remaining s \<le> fetchThreshold s \<and> \<not> fetchFailed s \<and> \<not> loadingMore s)"
  obtain c s' where run: "showOlder E s = (c, s')"
    by (cases "showOlder E s")
  obtain c1 s1 where pre: "(if trig then prefetchMore E s else (Normal, s)) = (c1, s1)"
    by (cases "if trig then prefetchMore E s else (Normal, s)")
  have s1: "\<exists>evs. calls s1 = calls s @ evs \<and> (Enter_prefetchMore \<in> set evs \<longleftrightarrow> trig) \<and>
      ((\<exists>e\<in>set evs. is_fetch e) \<longleftrightarrow> trig \<and> \<not> isFetching s)"
  proof (cases trig)
    case True
    with pre have "prefetchMore E s = (c1, s1)" by simp
    from prefetchMore_frame[OF this] True show ?thesis
      by (auto simp: trig_def)
  next
    case False
    with pre show ?thesis by simp
  qed
  then obtain evs where evs: "calls s1 = calls s @ evs" "Enter_prefetchMore \<in> set evs \<longleftrightarrow> trig"
      "(\<exists>e\<in>set evs. is_fetch e) \<longleftrightarrow> trig \<and> \<not> isFetching s"
    by blast
  have "\<exists>evs2. calls s' = calls s1 @ evs2 \<and> (\<forall>e\<in>set evs2. \<not> is_fetch e \<and> e \<noteq> Enter_prefetchMore)"
  proof -
    from showOlder_split[OF run pre[unfolded trig_def]]
    consider "s' = s1"
      | "displayCommit E (currentIndex s1 + 1) (s1\<lparr>currentIndex := currentIndex s1 + 1\<rparr>) = (c, s')"
      by blast
    then show ?thesis
    proof cases
      case 1
      then show ?thesis by simp
    next
      case 2
      from displayCommit_frame[OF 2] show ?thesis by simp
    qed
  qed
  then obtain evs2 where evs2: "calls s' = calls s1 @ evs2"
     "\<forall>e\<in>set evs2. \<not> is_fetch e \<and> e \<noteq> Enter_prefetchMore" by blast
  from evs evs2 have nc: "new_calls s (snd (showOlder E s)) = evs @ evs2"
    by (simp add: new_calls_def run)
  from evs(2,3) evs2(2) show ?thesis
    unfolding nc trig_def by auto
qed

theorem showOlder_prefetch_iff_witness:
  "Enter_prefetchMore \<in> set (new_calls (demo_state 10 3)
       (snd (showOlder demo_env (demo_state 10 3)))) \<and>
   (\<exists>e\<in>set (new_calls (demo_state 10 3)
       (snd (showOlder demo_env (demo_state 10 3)))). is_fetch e) \<and>
   remaining (demo_state 10 3) = 2 \<and>
   fetchThreshold (demo_state 10 3) = 2 \<and>
   \<not> fetchFailed (demo_state 10 3) \<and> \<not> loadingMore (demo_state 10 3) \<and>
   \<not> isFetching (demo_state 10 3) \<and>
   Enter_prefetchMore \<notin> set (new_calls (demo_state (- 3) 4)
       (snd (showOlder demo_env (demo_state (- 3) 4)))) \<and>
   remaining (demo_state (- 3) 4) = 3"
proof -
  have a: "remaining (demo_state 10 3) = 2 \<and>
   fetchThreshold (demo_state 10 3) = 2 \<and>
   \<not> fetchFailed (demo_state 10 3) \<and> \<not> loadingMore (demo_state 10 3) \<and>
   \<not> isFetching (demo_state 10 3)"
    by (simp add: demo_state_simps remaining_def demo_remote_def)
  have b: "remaining (demo_state (- 3) 4) = 3 \<and> fetchThreshold (demo_state (- 3) 4) = 2"
    by (simp add: demo_state_simps remaining_def demo_remote_def)
  from a b showOlder_prefetch_iff[of "demo_state 10 3" demo_env]
    showOlder_prefetch_iff[of "demo_state (- 3) 4" demo_env]
  show ?thesis by simp
qed

text \<open>
  Claim C2. \<^verbatim>\<open>cloneOrFetchRepo\<close>: when \<^verbatim>\<open>git.clone\<close> succeeds it is the only call, so
  \<^verbatim>\<open>git.fetch\<close> is never called; when \<^verbatim>\<open>git.clone\<close> throws, \<^verbatim>\<open>git.fetch\<close> is called
  exactly once, with the same argument object (the same \<^verbatim>\<open>fs\<close>, \<^verbatim>\<open>http\<close>, \<^verbatim>\<open>dir\<close>,
  \<^verbatim>\<open>url\<close>, \<^verbatim>\<open>ref\<close>, \<^verbatim>\<open>singleBranch: true\<close> and \<^verbatim>\<open>depth\<close>), and the function
  completes normally exactly when that fetch succeeds.
\<close>

theorem cloneOrFetchRepo_fallback:
  assumes cl: "git_clone E (clone_args fs http dir url b depth) (world s) = (r1, w1)"
    and fe: "git_fetch E (clone_args fs http dir url b depth) w1 = (r2, w2)"
  shows "(r1 = Inr () \<longrightarrow>
            new_calls s (snd (cloneOrFetchRepo E fs http dir url b depth s)) =
              [Git_clone (clone_args fs http dir url b depth) r1] \<and>
            fst (cloneOrFetchRepo E fs http dir url b depth s) = Normal) \<and>
         (r1 \<noteq> Inr () \<longrightarrow>
            new_calls s (snd (cloneOrFetchRepo E fs http dir url b depth s)) =
              [Git_clone (clone_args fs http dir url b depth) r1,
               Git_fetch (clone_args fs http dir url b depth) r2] \<and>
            (fst (cloneOrFetchRepo E fs http dir url b depth s) = Normal \<longleftrightarrow> r2 = Inr ())) \<and>
         na_fs (clone_args fs http dir url b depth) = fs \<and>
         na_http (clone_args fs http dir url b depth) = http \<and>
         na_dir (clone_args fs http dir url b depth) = dir \<and>
         na_url (clone_args fs http dir url b depth) = url \<and>
         na_ref (clone_args fs http dir url b depth) = b \<and>
         na_singleBranch (clone_args fs http dir url b depth) \<and>
         na_depth (clone_args fs http dir url b depth) = depth"
proof -
  have args: "na_fs (clone_args fs http dir url b depth) = fs \<and>
         na_http (clone_args fs http dir url b depth) = http \<and>
         na_dir (clone_args fs http dir url b depth) = dir \<and>
         na_url (clone_args fs http dir url b depth) = url \<and>
         na_ref (clone_args fs http dir url b depth) = b \<and>
         na_singleBranch (clone_args fs http dir url b depth) \<and>
         na_depth (clone_args fs http dir url b depth) = depth"
    by (simp add: clone_args_def)
  show ?thesis
  proof (cases r1)
    case (Inl e)
    with cl fe args show ?thesis
      by (cases r2) (simp_all add: cloneOrFetchRepo_def call_clone_def call_fetch_def new_calls_def)
  next
    case (Inr u)
    with cl args show ?thesis
      by (simp add: cloneOrFetchRepo_def call_clone_def new_calls_def)
  qed
qed

theorem cloneOrFetchRepo_fallback_witness:
  "git_clone demo_env (clone_args (Some (LightningFS ''fs'')) Http_web (Some ''/repo'') ''url'' ''main'' (Num 4))
      (world (demo_state 10 3)) =
     (Inl (LibError ''repository exists''), world (demo_state 10 3)) \<and>
   new_calls (demo_state 10 3)
     (snd (cloneOrFetchRepo demo_env (Some (LightningFS ''fs'')) Http_web (Some ''/repo'') ''url'' ''main'' (Num 4)
        (demo_state 10 3))) =
     [Git_clone (clone_args (Some (LightningFS ''fs'')) Http_web (Some ''/repo'') ''url'' ''main'' (Num 4))
        (Inl (LibError ''repository exists'')),
      Git_fetch (clone_args (Some (LightningFS ''fs'')) Http_web (Some ''/repo'') ''url'' ''main'' (Num 4))
        (Inr ())] \<and>
   fst (cloneOrFetchRepo demo_env (Some (LightningFS ''fs'')) Http_web (Some ''/repo'') ''url'' ''main'' (Num 4)
        (demo_state 10 3)) = Normal \<and>
   new_calls demo_element
     (snd (cloneOrFetchRepo demo_env (Some (LightningFS ''fs'')) Http_web (Some ''/repo'') ''url'' ''main'' (Num 4)
        demo_element)) =
     [Git_clone (clone_args (Some (LightningFS ''fs'')) Http_web (Some ''/repo'') ''url'' ''main'' (Num 4))
        (Inr ())] \<and>
   fst (cloneOrFetchRepo demo_env (Some (LightningFS ''fs'')) Http_web (Some ''/repo'') ''url'' ''main'' (Num 4)
        demo_element) = Normal"
proof -
  have cl: "git_clone demo_env (clone_args (Some (LightningFS ''fs'')) Http_web (Some ''/repo'') ''url'' ''main'' (Num 4))
      (world (demo_state 10 3)) =
     (Inl (LibError ''repository exists''), world (demo_state 10 3))"
    by (simp add: demo_state_simps demo_env_def demo_git_clone_def)
  have fe: "git_fetch demo_env (clone_args (Some (LightningFS ''fs'')) Http_web (Some ''/repo'') ''url'' ''main'' (Num 4))
      (world (demo_state 10 3)) =
     (Inr (), (world (demo_state 10 3))\<lparr>local_repo := Some demo_remote\<rparr>)"
    by (simp add: demo_state_simps demo_env_def demo_git_fetch_def clone_args_def demo_remote_def)
  have cl': "git_clone demo_env (clone_args (Some (LightningFS ''fs'')) Http_web (Some ''/repo'') ''url'' ''main'' (Num 4))
      (world demo_element) = (Inr (), (world demo_element)\<lparr>local_repo := Some demo_remote\<rparr>)"
    by (simp add: demo_element_def demo_env_def demo_git_clone_def clone_args_def demo_remote_def)
  have fe': "git_fetch demo_env (clone_args (Some (LightningFS ''fs'')) Http_web (Some ''/repo'') ''url'' ''main'' (Num 4))
      ((world demo_element)\<lparr>local_repo := Some demo_remote\<rparr>) =
     (Inr (), (world demo_element)\<lparr>local_repo := Some demo_remote\<rparr>)"
    by (simp add: demo_element_def demo_env_def demo_git_fetch_def clone_args_def demo_remote_def)
  from cloneOrFetchRepo_fallback[OF cl fe] cloneOrFetchRepo_fallback[OF cl' fe'] cl show ?thesis
    by simp
qed







text \<open>
  Claim C5. If the \<^verbatim>\<open>git.fetch\<close> inside \<^verbatim>\<open>prefetchMore\<close> throws, then afterwards
  \<^verbatim>\<open>fetchFailed\<close> is true, \<^verbatim>\<open>log\<close> is what it was, and the text of the status element
  (when the template has one) is \<^verbatim>\<open>Reached oldest commit\<close>; and in every state in which
  \<^verbatim>\<open>fetchFailed\<close> is true neither \<^verbatim>\<open>showOlder\<close> nor \<^verbatim>\<open>prefetchMore\<close> calls
  \<^verbatim>\<open>git.fetch\<close>.
\<close>

theorem prefetchMore_fetch_throws:
  assumes flags: "\<not> isFetching s" "\<not> fetchFailed s" "\<not> loadingMore s"
    and f: "git_fetch E (prefetch_fetch_args s (targetDepth s)) (world s) = (Inl e, w1)"
  shows "fetchFailed (snd (prefetchMore E s)) \<and>
         log (snd (prefetchMore E s)) = log s \<and>
         status (snd (prefetchMore E s)) = map_option (\<lambda>_. ''Reached oldest commit'') (status s) \<and>
         (\<forall>t. fetchFailed t \<longrightarrow>
            (\<forall>x\<in>set (new_calls t (snd (showOlder E t))). \<not> is_fetch x) \<and>
            (\<forall>x\<in>set (new_calls t (snd (prefetchMore E t))). \<not> is_fetch x))"
proof -
  obtain c s' where run: "prefetchMore E s = (c, s')"
    by (cases "prefetchMore E s")
  obtain r2 w2 where l: "git_log E (prefetch_log_args s (targetDepth s)) w1 = (r2, w2)"
    by (cases "git_log E (prefetch_log_args s (targetDepth s)) w1")
  from prefetchMore_proceeds[OF flags run refl f l]
  have a: "fetchFailed s' \<and> log s' = log s \<and>
      status s' = map_option (\<lambda>_. ''Reached oldest commit'') (status s)"
    by simp
  have b: "(\<forall>x\<in>set (new_calls t (snd (showOlder E t))). \<not> is_fetch x) \<and>
           (\<forall>x\<in>set (new_calls t (snd (prefetchMore E t))). \<not> is_fetch x)" if t: "fetchFailed t" for t
  proof -
    from showOlder_failed_calls[OF t, of E]
    have 1: "\<forall>x\<in>set (new_calls t (snd (showOlder E t))). \<not> is_fetch x" .
    from prefetchMore_guarded[of t E] t
    have "new_calls t (snd (prefetchMore E t)) = [Enter_prefetchMore]"
      by (simp add: new_calls_def)
    with 1 show ?thesis by simp
  qed
  from a b show ?thesis by (simp add: run)
qed

theorem prefetchMore_fetch_throws_witness:
  "\<not> isFetching (demo_state 10 3) \<and> \<not> fetchFailed (demo_state 10 3) \<and>
   \<not> loadingMore (demo_state 10 3) \<and>
   fetchFailed (snd (prefetchMore demo_env (demo_state 10 3))) \<and>
   log (snd (prefetchMore demo_env (demo_state 10 3))) = log (demo_state 10 3) \<and>
   status (snd (prefetchMore demo_env (demo_state 10 3))) = Some ''Reached oldest commit'' \<and>
   new_calls (snd (prefetchMore demo_env (demo_state 10 3)))
     (snd (prefetchMore demo_env (snd (prefetchMore demo_env (demo_state 10 3))))) =
     [Enter_prefetchMore]"
proof -
  let ?s = "demo_state 10 3"
  have flags: "\<not> isFetching ?s" "\<not> fetchFailed ?s" "\<not> loadingMore ?s"
    by (simp_all add: demo_state_simps)
  have f: "git_fetch demo_env (prefetch_fetch_args ?s (targetDepth ?s)) (world ?s) =
      (Inl (LibError ''no more commits''), world ?s)"
    by (simp add: demo_state_simps demo_env_def demo_git_fetch_def prefetch_fetch_args_def demo_remote_def)
  have st: "status ?s = Some []"
    by (simp add: demo_state_simps)
  note th = prefetchMore_fetch_throws[OF flags f]
  from th have ff: "fetchFailed (snd (prefetchMore demo_env ?s))" by simp
  from th ff have "\<forall>x\<in>set (new_calls (snd (prefetchMore demo_env ?s))
     (snd (prefetchMore demo_env (snd (prefetchMore demo_env ?s))))). \<not> is_fetch x"
    by blast
  moreover from prefetchMore_guarded[of "snd (prefetchMore demo_env ?s)" demo_env] ff
  have "new_calls (snd (prefetchMore demo_env ?s))
     (snd (prefetchMore demo_env (snd (prefetchMore demo_env ?s)))) = [Enter_prefetchMore]"
    by (simp add: new_calls_def)
  ultimately show ?thesis
    using th flags st by simp
qed

text \<open>
  Claim C9. If \<^verbatim>\<open>isFetching\<close>, \<^verbatim>\<open>fetchFailed\<close> or \<^verbatim>\<open>loadingMore\<close> is true when
  \<^verbatim>\<open>prefetchMore\<close> is entered, it returns at once: nothing but the entry is recorded (no
  call into the library), and the world, \<^verbatim>\<open>log\<close>, \<^verbatim>\<open>fetchFailed\<close> and \<^verbatim>\<open>currentIndex\<close>
  are unchanged. When it proceeds, \<^verbatim>\<open>isFetching\<close> and \<^verbatim>\<open>loadingMore\<close> are both false
  again afterwards, whether the fetch succeeded or threw, and whether or not
  \<^verbatim>\<open>prefetchMore\<close> itself completed normally.
\<close>

theorem prefetchMore_guard:
  "(isFetching s \<or> fetchFailed s \<or> loadingMore s \<longrightarrow>
      prefetchMore E s = (Normal, s\<lparr>calls := calls s @ [Enter_prefetchMore]\<rparr>) \<and>
      new_calls s (snd (prefetchMore E s)) = [Enter_prefetchMore] \<and>
      world (snd (prefetchMore E s)) = world s \<and>
      log (snd (prefetchMore E s)) = log s \<and>
      fetchFailed (snd (prefetchMore E s)) = fetchFailed s \<and>
      currentIndex (snd (prefetchMore E s)) = currentIndex s) \<and>
   (\<not> (isFetching s \<or> fetchFailed s \<or> loadingMore s) \<longrightarrow>
      \<not> isFetching (snd (prefetchMore E s)) \<and> \<not> loadingMore (snd (prefetchMore E s)))"
proof (cases "isFetching s \<or> fetchFailed s \<or> loadingMore s")
  case True
  from prefetchMore_guarded[OF True, of E] True show ?thesis
    by (simp add: new_calls_def)
next
  case False
  obtain c s' where run: "prefetchMore E s = (c, s')"
    by (cases "prefetchMore E s")
  obtain r1 w1 where f: "git_fetch E (prefetch_fetch_args s (targetDepth s)) (world s) = (r1, w1)"
    by (cases "git_fetch E (prefetch_fetch_args s (targetDepth s)) (world s)")
  obtain r2 w2 where l: "git_log E (prefetch_log_args s (targetDepth s)) w1 = (r2, w2)"
    by (cases "git_log E (prefetch_log_args s (targetDepth s)) w1")
  from False have flags: "\<not> isFetching s" "\<not> fetchFailed s" "\<not> loadingMore s" by simp_all
  from prefetchMore_proceeds(6,7)[OF flags run refl f l] False show ?thesis
    by (simp add: run)
qed

theorem prefetchMore_guard_witness:
  "fetchFailed ((demo_state 10 3)\<lparr>fetchFailed := True\<rparr>) \<and>
   new_calls ((demo_state 10 3)\<lparr>fetchFailed := True\<rparr>)
     (snd (prefetchMore demo_env ((demo_state 10 3)\<lparr>fetchFailed := True\<rparr>))) =
     [Enter_prefetchMore] \<and>
   \<not> isFetching (demo_state 10 3) \<and> \<not> fetchFailed (demo_state 10 3) \<and>
   \<not> loadingMore (demo_state 10 3) \<and>
   \<not> isFetching (snd (prefetchMore demo_env (demo_state 10 3))) \<and>
   \<not> loadingMore (snd (prefetchMore demo_env (demo_state 10 3)))"
proof -
  have flags: "\<not> isFetching (demo_state 10 3) \<and> \<not> fetchFailed (demo_state 10 3) \<and>
   \<not> loadingMore (demo_state 10 3)"
    by (simp add: demo_state_simps)
  from prefetchMore_guard[of "(demo_state 10 3)\<lparr>fetchFailed := True\<rparr>" demo_env]
    prefetchMore_guard[of "demo_state 10 3" demo_env] flags
  show ?thesis by (simp add: new_calls_def)
qed






text \<open>
  Claim C8, as amended. In every state reachable from the constructed one through
  \<^verbatim>\<open>showOlder\<close>, \<^verbatim>\<open>showNewer\<close>, \<^verbatim>\<open>prefetchMore\<close>, \<^verbatim>\<open>displayCommit\<close> and
  \<^verbatim>\<open>initializeRepo\<close>, \<^verbatim>\<open>0 <= currentIndex\<close>. The bound \<^verbatim>\<open>currentIndex <= log.length - 1\<close>
  for a non-empty list holds in every state reached through operations none of which leaves
  \<^verbatim>\<open>log\<close> shorter than it found it. \<^verbatim>\<open>displayCommit\<close> with an index below 0 or not below
  \<^verbatim>\<open>log.length\<close> returns at once and changes nothing.
\<close>

theorem index_invariant:
  "(reachable E s \<longrightarrow> 0 \<le> currentIndex s) \<and>
   (reachable_growing E s \<longrightarrow>
      0 \<le> currentIndex s \<and> (log s \<noteq> [] \<longrightarrow> currentIndex s \<le> int (length (log s)) - 1)) \<and>
   (index < 0 \<or> int (length (log t)) \<le> index \<longrightarrow> displayCommit E index t = (Normal, t))"
proof -
  have "0 \<le> currentIndex s \<and> (log s \<noteq> [] \<longrightarrow> currentIndex s \<le> int (length (log s)) - 1)"
    if "reachable_growing E s"
    using reachable_growing_index[OF that] by (cases "log s") auto
  then show ?thesis
    using reachable_index_nonneg[of E s] displayCommit_out_of_range[of index t E] by blast
qed

theorem index_invariant_witness:
  "reachable demo_env (demo_state (- 3) 4) \<and> reachable_growing demo_env (demo_state (- 3) 4) \<and>
   log (demo_state (- 3) 4) \<noteq> [] \<and>
   0 \<le> currentIndex (demo_state (- 3) 4) \<and>
   currentIndex (demo_state (- 3) 4) \<le> int (length (log (demo_state (- 3) 4))) - 1 \<and>
   length (log (demo_state (- 3) 4)) = 4 \<and>
   displayCommit demo_env 4 (demo_state (- 3) 4) = (Normal, demo_state (- 3) 4)"
proof -
  have a: "log (demo_state (- 3) 4) \<noteq> []" "length (log (demo_state (- 3) 4)) = 4"
    by (simp_all add: demo_state_simps)
  from index_invariant[of demo_env "demo_state (- 3) 4" 4 "demo_state (- 3) 4"]
    demo_state_reachable(2) demo_state_reachable_growing a
  show ?thesis by simp
qed

text \<open>
  The claim C8 as first stated fails when \<^verbatim>\<open>git.log\<close> returns fewer commits than the
  list held: with the attributes \<^verbatim>\<open>fetch-step="-3"\<close> and \<^verbatim>\<open>initial-depth="4"\<close> the
  component loads 4 commits, the first \<^verbatim>\<open>showOlder\<close> moves to index 1, and the second
  one prefetches at depth 4 - 3 = 1, which leaves a list of one commit under
  \<^verbatim>\<open>currentIndex = 1\<close>.
\<close>

theorem index_bound_counterexample:
  "reachable demo_env demo_paged \<and>
   currentIndex demo_paged = 1 \<and> length (log demo_paged) = 4 \<and>
   reachable demo_env (snd (showOlder demo_env demo_paged)) \<and>
   log (snd (showOlder demo_env demo_paged)) \<noteq> [] \<and>
   currentIndex (snd (showOlder demo_env demo_paged)) = 1 \<and>
   length (log (snd (showOlder demo_env demo_paged))) = 1 \<and>
   \<not> currentIndex (snd (showOlder demo_env demo_paged)) \<le>
       int (length (log (snd (showOlder demo_env demo_paged)))) - 1"
proof -
  have r1: "reachable demo_env demo_paged"
    using reachable.operation[OF demo_state_reachable(2), of ShowOlder]
    by (simp add: demo_paged_def)
  have r2: "reachable demo_env (snd (showOlder demo_env demo_paged))"
    using reachable.operation[OF r1, of ShowOlder] by simp
  from demo_older have "log (snd (showOlder demo_env demo_paged)) \<noteq> []"
    by (cases "log (snd (showOlder demo_env demo_paged))") simp_all
  with r1 r2 demo_older show ?thesis by simp
qed

text \<open>
  Claim C10. In every state of the component (reachable from the constructed one) with
  \<^verbatim>\<open>currentIndex < log.length - 1\<close> and more than \<^verbatim>\<open>fetchThreshold\<close> commits behind the
  current one, so that \<^verbatim>\<open>showOlder\<close> triggers no prefetch, \<^verbatim>\<open>showOlder\<close> followed by
  \<^verbatim>\<open>showNewer\<close> leaves \<^verbatim>\<open>currentIndex\<close> and \<^verbatim>\<open>log\<close> as they were.
\<close>

theorem showOlder_showNewer_round_trip:
  assumes "reachable E s"
    and "currentIndex s < int (length (log s)) - 1"
    and "fetchThreshold s < remaining s"
  shows "currentIndex (snd (showNewer E (snd (showOlder E s)))) = currentIndex s \<and>
         log (snd (showNewer E (snd (showOlder E s)))) = log s"
proof -
  from assms(1) have nonneg: "0 \<le> currentIndex s"
    by (rule reachable_index_nonneg)
  from showOlder_index[of E s] assms(2,3)
  have older: "currentIndex (snd (showOlder E s)) = currentIndex s + 1"
    "log (snd (showOlder E s)) = log s"
    by simp_all
  from showNewer_index[of E "snd (showOlder E s)"] older nonneg show ?thesis
    by simp
qed

theorem showOlder_showNewer_round_trip_witness:
  "reachable demo_env (demo_state (- 3) 4) \<and>
   currentIndex (demo_state (- 3) 4) = 0 \<and> length (log (demo_state (- 3) 4)) = 4 \<and>
   fetchThreshold (demo_state (- 3) 4) = 2 \<and> remaining (demo_state (- 3) 4) = 3 \<and>
   currentIndex (snd (showNewer demo_env (snd (showOlder demo_env (demo_state (- 3) 4))))) = 0 \<and>
   log (snd (showNewer demo_env (snd (showOlder demo_env (demo_state (- 3) 4))))) =
     log (demo_state (- 3) 4)"
proof -
  have a: "currentIndex (demo_state (- 3) 4) = 0 \<and> length (log (demo_state (- 3) 4)) = 4 \<and>
   fetchThreshold (demo_state (- 3) 4) = 2 \<and> remaining (demo_state (- 3) 4) = 3"
    by (simp add: demo_state_simps remaining_def)
  from a have b: "currentIndex (demo_state (- 3) 4) < int (length (log (demo_state (- 3) 4))) - 1"
    and c: "fetchThreshold (demo_state (- 3) 4) < remaining (demo_state (- 3) 4)"
    by simp_all
  from showOlder_showNewer_round_trip[OF demo_state_reachable(2) b c] a demo_state_reachable(2)
  show ?thesis by simp
qed

end
